theory Spec2Isabelle
  imports Complex_Main
begin

section \<open>Cap table engine: data model\<close>

text \<open>
  The engine of \<^verbatim>\<open>capTableEngine.ts\<close> works on decimal.js values and JavaScript numbers.
  Here a finite decimal (money, prices, proportions) is a rational number, a share count
  is an integer, and a date is the integer number of milliseconds that
  \<^verbatim>\<open>new Date(s).getTime()\<close> returns for its text. Quantities, which the source keeps as
  the decimal text of an integer (\<^verbatim>\<open>String(n)\<close>, read back with \<^verbatim>\<open>parseInt\<close> or
  \<^verbatim>\<open>toDecimal\<close>), are integers. An optional field is an \<open>option\<close>; a text field that the
  source tests for truthiness is absent (\<open>None\<close>) exactly when the test fails.
  The rounding of decimal.js to 28 significant digits and of IEEE doubles is not
  modelled: arithmetic is exact.
\<close>

datatype PersonType = Founder | Employee | Advisor | Investor | OtherPerson | EsopPoolPerson

datatype ShareClassType = Common | Preferred | OptionClass

datatype ParticipationType = NonParticipating | Participating | CappedParticipating

datatype ValuationType = PreMoney | PostMoney

record Person =
  p_id :: string
  p_name :: string
  p_type :: PersonType

record ShareClass =
  sc_id :: string
  sc_name :: string
  sc_type :: ShareClassType
  seniorityRank :: int
  liquidationPreferenceMultiple :: rat
  participation :: ParticipationType
  participationCapMultiple :: "rat option"
  isConvertibleToCommon :: bool
  pricePerShare :: "rat option"

record SecurityHolding =
  h_id :: string
  holderId :: string
  shareClassId :: string
  quantity :: int
  sourceEventId :: string
  isOption :: bool
  strikePrice :: "string option"
  vestingScheduleId :: "string option"
  vestingStartDate :: "int option"
  grantDate :: "int option"
  investmentAmount :: "rat option"

record VestingSchedule =
  vs_id :: string
  cliffMonths :: int
  totalMonths :: int
  initialCliffPercent :: rat

record SAFE =
  safe_id :: string
  investorId :: string
  investorName :: "string option"
  principalAmount :: rat
  valuationType :: ValuationType
  valuationCap :: "rat option"
  discountPercent :: "rat option"
  mostFavoredNation :: bool
  issueDate :: int
  convertedInEventId :: "string option"

record CapTableState =
  companyId :: string
  asOfEventId :: "string option"
  asOfDate :: "int option"
  shareClasses :: "ShareClass list"
  holdings :: "SecurityHolding list"
  safes :: "SAFE list"
  people :: "Person list"
  vestingSchedules :: "VestingSchedule list"

definition ESOP_POOL_HOLDER_ID :: string where
  "ESOP_POOL_HOLDER_ID = ''__esop_pool__''"

text \<open>A JavaScript number that the engine computes as an integer, or one of the two
  non-finite values that a division by zero can leave in its place.\<close>

datatype jsint = Fin int | NaN | NegInfinity

section \<open>Failures\<close>

text \<open>
  Every \<^verbatim>\<open>throw new Error(...)\<close> of the engine is a constructor of \<open>error\<close>, and a
  function that can throw returns \<open>error + 'a\<close>. The constructor \<open>NonFinite\<close> is not an
  exception of the source: it marks the runs in which a decimal.js division meets a zero
  divisor (or a share count leaves the integers as \<^verbatim>\<open>Infinity\<close> or \<^verbatim>\<open>NaN\<close>). The
  source goes on computing with the non-finite value; the model stops there and says
  nothing about what follows.
\<close>

datatype error =
    TargetPercentTooHigh
  | UnknownEventType
  | NoOptionShareClass
  | InsufficientPool int int
  | ShareClassNotFound
  | NoOptionHoldings
  | InsufficientVested jsint int
  | NonFinite

text \<open>\<^verbatim>\<open>uuidv4()\<close> is a source of identifiers outside the program: the handlers take it as
  a parameter \<open>uuid\<close>, whose value at \<open>k\<close> is what the \<open>k\<close>-th call returns.\<close>

type_synonym uuids = "nat \<Rightarrow> string"

section \<open>Decimal utilities\<close>

text \<open>\<^verbatim>\<open>shares.round().toNumber()\<close> under \<^verbatim>\<open>ROUND_HALF_UP\<close>: to the nearest integer,
  a half away from zero.\<close>

definition roundShares :: "rat \<Rightarrow> int" where
  "roundShares shares = (if 0 \<le> shares then \<lfloor>shares + 1 / 2\<rfloor> else - \<lfloor>- shares + 1 / 2\<rfloor>)"

text \<open>\<^verbatim>\<open>x.toFixed(2)\<close> of a decimal: two decimal places, same rounding mode.\<close>

definition toFixed2 :: "rat \<Rightarrow> rat" where
  "toFixed2 x = of_int (roundShares (x * 100)) / 100"

text \<open>\<^verbatim>\<open>a.div(b)\<close>, defined on the finite results only.\<close>

definition decDiv :: "rat \<Rightarrow> rat \<Rightarrow> error + rat" where
  "decDiv a b = (if b = 0 then Inl NonFinite else Inr (a / b))"

text \<open>Sequencing of computations that can fail: the first failure is the result.\<close>

definition bindE :: "error + 'a \<Rightarrow> ('a \<Rightarrow> error + 'b) \<Rightarrow> error + 'b" where
  "bindE r f = (case r of Inl e \<Rightarrow> Inl e | Inr x \<Rightarrow> f x)"

text \<open>\<^verbatim>\<open>xs.find(p)\<close> followed by an in-place change of the object found: the first
  element that satisfies \<open>p\<close> is replaced, the rest of the array is untouched.\<close>

fun updateFirst :: "('a \<Rightarrow> bool) \<Rightarrow> ('a \<Rightarrow> 'a) \<Rightarrow> 'a list \<Rightarrow> 'a list" where
  "updateFirst p f [] = []"
| "updateFirst p f (x # xs) = (if p x then f x # xs else x # updateFirst p f xs)"

section \<open>Vesting calculator\<close>

text \<open>\<^verbatim>\<open>30.44 * 24 * 60 * 60 * 1000\<close>: the milliseconds of the engine's month.\<close>

definition msPerMonth :: int where
  "msPerMonth = 2630016000"

text \<open>\<^verbatim>\<open>new Date(holding.vestingStartDate || holding.grantDate || asOfDate)\<close>\<close>

definition vestingStart :: "SecurityHolding \<Rightarrow> int \<Rightarrow> int" where
  "vestingStart holding asOf =
     (case vestingStartDate holding of
        Some d \<Rightarrow> d
      | None \<Rightarrow> (case grantDate holding of Some d \<Rightarrow> d | None \<Rightarrow> asOf))"

definition monthsElapsed :: "SecurityHolding \<Rightarrow> int \<Rightarrow> int" where
  "monthsElapsed holding asOf = (asOf - vestingStart holding asOf) div msPerMonth"

text \<open>\<^verbatim>\<open>schedule.initialCliffPercent || 25\<close>\<close>

definition cliffPercentOf :: "VestingSchedule \<Rightarrow> rat" where
  "cliffPercentOf schedule =
     (if initialCliffPercent schedule = 0 then 25 else initialCliffPercent schedule)"

text \<open>
  The part of \<^verbatim>\<open>calculateVestedOptions\<close> after the schedule is found.
  When \<open>totalMonths = cliffMonths\<close> the source divides by zero: the quotient is
  \<open>NaN\<close> for a zero numerator and an infinity otherwise, and \<^verbatim>\<open>Math.min\<close> keeps
  \<open>NaN\<close> and \<open>-Infinity\<close> and drops \<open>+Infinity\<close>.
\<close>

definition vestedUnderSchedule :: "VestingSchedule \<Rightarrow> int \<Rightarrow> int \<Rightarrow> jsint" where
  "vestedUnderSchedule schedule totalOptions elapsed =
     (if elapsed < cliffMonths schedule then Fin 0
      else
        let cliffPercent = cliffPercentOf schedule;
            cliffVested = \<lfloor>of_int totalOptions * cliffPercent / 100\<rfloor>;
            remainingOptions = totalOptions - cliffVested;
            remainingMonths = totalMonths schedule - cliffMonths schedule;
            monthsAfterCliff = elapsed - cliffMonths schedule
        in if remainingMonths = 0 then
             (if remainingOptions * monthsAfterCliff = 0 then NaN
              else if remainingOptions * monthsAfterCliff < 0 then NegInfinity
              else Fin (min totalOptions (cliffVested + remainingOptions)))
           else
             let postCliffVested =
                   min remainingOptions
                     \<lfloor>(of_int (remainingOptions * monthsAfterCliff) :: rat) / of_int remainingMonths\<rfloor>
             in Fin (min totalOptions (cliffVested + postCliffVested)))"

definition calculateVestedOptions :: "SecurityHolding \<Rightarrow> int \<Rightarrow> CapTableState \<Rightarrow> jsint" where
  "calculateVestedOptions holding asOf state =
     (case vestingScheduleId holding of
        None \<Rightarrow> Fin (quantity holding)
      | Some sid \<Rightarrow>
          (case find (\<lambda>v. vs_id v = sid) (vestingSchedules state) of
             None \<Rightarrow> Fin (quantity holding)
           | Some schedule \<Rightarrow>
               vestedUnderSchedule schedule (quantity holding) (monthsElapsed holding asOf)))"

section \<open>Proportional allocator\<close>

record Recipient =
  r_id :: string
  proportion :: rat

record ExactShare =
  es_id :: string
  exact :: rat
  floorShares :: int
  remainder :: rat

record Allocation =
  a_id :: string
  shares :: int

text \<open>\<^verbatim>\<open>result.get(id) || 0\<close> on the \<^verbatim>\<open>Map\<close> from ids to share counts.\<close>

definition getOr0 :: "(string \<rightharpoonup> int) \<Rightarrow> string \<Rightarrow> int" where
  "getOr0 m k = (case m k of None \<Rightarrow> 0 | Some v \<Rightarrow> v)"

definition exactSharesOf :: "int \<Rightarrow> Recipient list \<Rightarrow> ExactShare list" where
  "exactSharesOf totalShares recipients =
     map (\<lambda>r. let e = of_int totalShares * proportion r
              in \<lparr>es_id = r_id r, exact = e, floorShares = \<lfloor>e\<rfloor>, remainder = e - of_int \<lfloor>e\<rfloor>\<rparr>)
         recipients"

text \<open>\<^verbatim>\<open>[r.id, r.floor]\<close> entering the \<^verbatim>\<open>Map\<close>: a later entry with the same id
  replaces an earlier one.\<close>

definition storeFloor :: "ExactShare \<Rightarrow> (string \<rightharpoonup> int) \<Rightarrow> (string \<rightharpoonup> int)" where
  "storeFloor e m = m(es_id e \<mapsto> floorShares e)"

text \<open>\<^verbatim>\<open>result.set(sorted[i].id, (result.get(sorted[i].id) || 0) + 1)\<close>\<close>

definition awardExtra :: "ExactShare \<Rightarrow> (string \<rightharpoonup> int) \<Rightarrow> (string \<rightharpoonup> int)" where
  "awardExtra e m = m(es_id e \<mapsto> getOr0 m (es_id e) + 1)"

text \<open>
  \<^verbatim>\<open>distributeSharesByLargestRemainder\<close>. The comparator \<^verbatim>\<open>b.remainder - a.remainder\<close>
  of the (stable) array sort orders by descending remainder; the loop
  \<^verbatim>\<open>for (i = 0; i < remaining && i < sorted.length; i++)\<close> visits the first \<open>remaining\<close>
  entries of the sorted array, none when \<open>remaining \<le> 0\<close>.
\<close>

definition distributeSharesByLargestRemainder :: "int \<Rightarrow> Recipient list \<Rightarrow> Allocation list" where
  "distributeSharesByLargestRemainder totalShares recipients =
     (let exactShares = exactSharesOf totalShares recipients;
          distributed = sum_list (map floorShares exactShares);
          remaining = totalShares - distributed;
          sorted = sort_key (\<lambda>e. - remainder e) exactShares;
          result0 = fold storeFloor exactShares Map.empty;
          result = fold awardExtra (take (nat remaining) sorted) result0
      in map (\<lambda>r. \<lparr>a_id = r_id r, shares = getOr0 result (r_id r)\<rparr>) recipients)"

section \<open>Option pool sizing\<close>

text \<open>\<^verbatim>\<open>calculateESOPPoolFromPercent\<close>: refuses a target of 100% or more, then
  \<open>existing \<times> p / (1 - p)\<close>.\<close>

definition calculateESOPPoolFromPercent :: "rat \<Rightarrow> rat \<Rightarrow> error + int" where
  "calculateESOPPoolFromPercent existingShares targetPercent =
     (if 1 \<le> targetPercent then Inl TargetPercentTooHigh
      else Inr (roundShares (existingShares * targetPercent / (1 - targetPercent))))"

text \<open>\<^verbatim>\<open>calculateESOPExtension\<close>: no test of the target; at exactly 100% the division
  is by zero.\<close>

definition calculateESOPExtension :: "rat \<Rightarrow> rat \<Rightarrow> rat \<Rightarrow> error + int" where
  "calculateESOPExtension currentFullyDiluted currentPoolSize targetPercent =
     (let nonPoolShares = currentFullyDiluted - currentPoolSize
      in bindE (decDiv (nonPoolShares * targetPercent) (1 - targetPercent)) (\<lambda>targetPool.
           let extension = targetPool - currentPoolSize
           in Inr (max 0 (roundShares extension))))"

section \<open>Metrics\<close>

text \<open>\<^verbatim>\<open>calculatePreRoundMetrics\<close>: the two totals that the handlers read. A holding
  counts as legally issued when its share class is found and is not the option class.\<close>

definition legalIssuedShares :: "CapTableState \<Rightarrow> int" where
  "legalIssuedShares state =
     sum_list (map quantity
       (filter (\<lambda>h. case find (\<lambda>sc. sc_id sc = shareClassId h) (shareClasses state) of
                       None \<Rightarrow> False
                     | Some sc \<Rightarrow> sc_type sc \<noteq> OptionClass)
               (holdings state)))"

definition fullyDilutedShares :: "CapTableState \<Rightarrow> int" where
  "fullyDilutedShares state = sum_list (map quantity (holdings state))"

definition getUnallocatedESOPPool :: "CapTableState \<Rightarrow> int" where
  "getUnallocatedESOPPool state =
     (case find (\<lambda>h. holderId h = ESOP_POOL_HOLDER_ID \<and> isOption h) (holdings state) of
        None \<Rightarrow> 0
      | Some poolHolding \<Rightarrow> quantity poolHolding)"

section \<open>SAFE conversion\<close>

record SAFEConversion =
  conv_shares :: int
  effectivePrice :: rat
  conv_method :: string

text \<open>The cap price \<^verbatim>\<open>cap.div(fullyDilutedShares)\<close>, when the SAFE has a cap.\<close>

definition capPriceOf :: "SAFE \<Rightarrow> rat \<Rightarrow> error + rat option" where
  "capPriceOf safe fd =
     (case valuationCap safe of
        None \<Rightarrow> Inr None
      | Some cap \<Rightarrow> bindE (decDiv cap fd) (\<lambda>p. Inr (Some p)))"

text \<open>The discount price, when \<^verbatim>\<open>safe.discountPercent && safe.discountPercent > 0\<close>.\<close>

definition discountPriceOf :: "SAFE \<Rightarrow> rat \<Rightarrow> rat option" where
  "discountPriceOf safe roundPrice =
     (case discountPercent safe of
        None \<Rightarrow> None
      | Some d \<Rightarrow> if 0 < d then Some (roundPrice * (1 - d / 100)) else None)"

definition calculateSAFEConversion :: "SAFE \<Rightarrow> rat \<Rightarrow> rat \<Rightarrow> error + SAFEConversion" where
  "calculateSAFEConversion safe roundPrice fd =
     bindE (capPriceOf safe fd) (\<lambda>capPrice.
       let discountPrice = discountPriceOf safe roundPrice;
           (price, method) =
             (case (capPrice, discountPrice) of
                (Some c, Some d) \<Rightarrow> if c < d then (c, ''cap'') else (d, ''discount'')
              | (Some c, None) \<Rightarrow> if c < roundPrice then (c, ''cap'') else (roundPrice, ''round_price'')
              | (None, Some d) \<Rightarrow> if d < roundPrice then (d, ''discount'') else (roundPrice, ''round_price'')
              | (None, None) \<Rightarrow> (roundPrice, ''round_price''))
       in bindE (decDiv (principalAmount safe) price) (\<lambda>q.
            Inr \<lparr>conv_shares = roundShares q, effectivePrice = price, conv_method = method\<rparr>))"

text \<open>
  The price logic that the post-money iteration of a priced round and the conversion at an
  exit both write out in place: start from the given price, lower it to the cap price
  \<^verbatim>\<open>cap.div(fd)\<close> when that is lower, then to the discount price when that is lower. Both
  callers have divided by \<open>fd\<close> before, so \<open>fd\<close> is not zero here.
\<close>

definition inlinedEffectivePrice :: "SAFE \<Rightarrow> rat \<Rightarrow> rat \<Rightarrow> rat" where
  "inlinedEffectivePrice safe price fd =
     (let afterCap =
            (case valuationCap safe of
               None \<Rightarrow> price
             | Some cap \<Rightarrow> if cap / fd < price then cap / fd else price)
      in case discountPriceOf safe price of
           None \<Rightarrow> afterCap
         | Some discountPrice \<Rightarrow> if discountPrice < afterCap then discountPrice else afterCap)"

text \<open>The person pushed for the investor of a converting SAFE:
  \<^verbatim>\<open>name: safe.investorName || 'SAFE Investor'\<close>.\<close>

definition safeInvestor :: "SAFE \<Rightarrow> Person" where
  "safeInvestor safe =
     \<lparr>p_id = investorId safe,
      p_name = (case investorName safe of None \<Rightarrow> ''SAFE Investor'' | Some n \<Rightarrow> n),
      p_type = Investor\<rparr>"


section \<open>Events\<close>

text \<open>
  An event of the source carries a type tag and an untyped \<^verbatim>\<open>data\<close> record that the
  handler of that type reads. Here the tag and the fields that its handler reads form one
  constructor of \<open>EventData\<close>; \<open>UnknownEvent\<close> stands for any other tag. Numeric fields
  that the source parses (\<^verbatim>\<open>parseInt(x, 10)\<close>, \<^verbatim>\<open>toDecimal(x)\<close>) hold the parsed value.
\<close>

datatype InputMode = PercentageMode | SharesMode

record FounderInput =
  f_personId :: string
  f_name :: string
  f_percentage :: "rat option"
  f_shares :: "int option"

text \<open>The option pool of an incorporation or pool creation: a target percentage or a
  fixed number of shares, as \<^verbatim>\<open>inputMode\<close> says.\<close>

datatype PoolSize = PoolPercentage rat | PoolShares int

record IncorporationData =
  totalIssuedShares :: rat
  inc_pricePerShare :: "rat option"
  founderInputMode :: InputMode
  founders :: "FounderInput list"
  esopPool :: "PoolSize option"

record OptionExerciseData =
  ox_employeeId :: string
  ox_shares :: int

record VestingInput =
  vi_cliffMonths :: int
  vi_totalMonths :: int
  vi_initialCliffPercent :: rat

datatype GrantSize = GrantPercentage rat | GrantShares int

record ESOPGrantData =
  g_employeeId :: string
  g_employeeName :: string
  g_size :: GrantSize
  g_strikePrice :: "string option"
  g_vestingStartDate :: "int option"
  g_vestingScheduleId :: "string option"
  g_vestingSchedule :: "VestingInput option"

record SAFEInput =
  si_id :: "string option"
  si_investorId :: string
  si_investorName :: "string option"
  si_principalAmount :: rat
  si_valuationType :: "ValuationType option"
  si_valuationCap :: "rat option"
  si_discountPercent :: "rat option"
  si_mostFavoredNation :: bool

record InvestorInput =
  inv_personId :: string
  inv_name :: string
  inv_amount :: "rat option"

datatype ValuationInput =
    ByPricePerShare rat
  | ByPreMoney rat
  | ByPostMoney rat

record PricedRoundData =
  valuation :: ValuationInput
  totalNewMoney :: rat
  investors :: "InvestorInput list"
  pr_shareClassId :: "string option"
  createNewShareClass :: bool
  shareClassName :: "string option"
  liquidationPreference :: "rat option"
  pr_participation :: "ParticipationType option"
  participationCap :: "rat option"
  esopTargetPercent :: "rat option"
  safesToConvert :: "string list option"

datatype EventData =
    Incorporation IncorporationData
  | PricedRound PricedRoundData
  | SAFEIssuance "SAFEInput list"
  | ESOPPoolCreation PoolSize
  | ESOPPoolExtension rat
  | ESOPGrant ESOPGrantData
  | OptionExercise OptionExerciseData
  | UnknownEvent

record Event =
  e_id :: string
  e_date :: int
  e_label :: string
  e_data :: EventData

section \<open>Event handlers: option pool and exercise\<close>

definition poolPerson :: Person where
  "poolPerson = \<lparr>p_id = ESOP_POOL_HOLDER_ID, p_name = ''ESOP Pool (Unallocated)'',
                  p_type = EsopPoolPerson\<rparr>"

definition employeeOptionsClass :: "string \<Rightarrow> ShareClass" where
  "employeeOptionsClass cid =
     \<lparr>sc_id = cid, sc_name = ''Employee Options'', sc_type = OptionClass, seniorityRank = 0,
      liquidationPreferenceMultiple = 0, participation = NonParticipating,
      participationCapMultiple = None, isConvertibleToCommon = True, pricePerShare = None\<rparr>"

text \<open>A holding as the handlers push it: the fields not named stay undefined.\<close>

definition newHolding :: "string \<Rightarrow> string \<Rightarrow> string \<Rightarrow> int \<Rightarrow> string \<Rightarrow> bool \<Rightarrow> SecurityHolding" where
  "newHolding hid holder cid qty eid opt =
     \<lparr>h_id = hid, holderId = holder, shareClassId = cid, quantity = qty, sourceEventId = eid,
      isOption = opt, strikePrice = None, vestingScheduleId = None, vestingStartDate = None,
      grantDate = None, investmentAmount = None\<rparr>"

text \<open>\<^verbatim>\<open>if (!state.people.find(p => p.id === id)) state.people.push(person)\<close>\<close>

definition addPersonIfAbsent :: "Person \<Rightarrow> Person list \<Rightarrow> Person list" where
  "addPersonIfAbsent person ps =
     (case find (\<lambda>p. p_id p = p_id person) ps of None \<Rightarrow> ps @ [person] | Some _ \<Rightarrow> ps)"

text \<open>
  \<^verbatim>\<open>applyESOPPoolCreation\<close>. The option class is reused when there is one, else created
  with the next identifier; the pool holding of that class is topped up when there is
  one, else created.
\<close>

definition applyESOPPoolCreation :: "uuids \<Rightarrow> CapTableState \<Rightarrow> Event \<Rightarrow> PoolSize \<Rightarrow> error + CapTableState" where
  "applyESOPPoolCreation uuid state event data =
     (let state1 = state\<lparr>people := addPersonIfAbsent poolPerson (people state)\<rparr>;
          (state2, optionClass, k) =
             (case find (\<lambda>sc. sc_type sc = OptionClass) (shareClasses state1) of
                Some oc \<Rightarrow> (state1, oc, 0::nat)
              | None \<Rightarrow>
                  (state1\<lparr>shareClasses := shareClasses state1 @ [employeeOptionsClass (uuid 0)]\<rparr>,
                   employeeOptionsClass (uuid 0), 1))
      in bindE (case data of
                  PoolPercentage percentage \<Rightarrow>
                    calculateESOPPoolFromPercent (of_int (legalIssuedShares state2)) (percentage / 100)
                | PoolShares n \<Rightarrow> Inr n) (\<lambda>poolShares.
           let isPool = (\<lambda>h. holderId h = ESOP_POOL_HOLDER_ID \<and> shareClassId h = sc_id optionClass)
           in case find isPool (holdings state2) of
                Some _ \<Rightarrow>
                  Inr (state2\<lparr>holdings :=
                         updateFirst isPool (\<lambda>h. h\<lparr>quantity := quantity h + poolShares\<rparr>)
                           (holdings state2)\<rparr>)
              | None \<Rightarrow>
                  Inr (state2\<lparr>holdings := holdings state2 @
                         [newHolding (uuid k) ESOP_POOL_HOLDER_ID (sc_id optionClass) poolShares
                            (e_id event) True]\<rparr>)))"

text \<open>
  \<^verbatim>\<open>applyESOPPoolExtension\<close>. With no option class, \<^verbatim>\<open>optionClass?.id\<close> is undefined and
  no holding is found.
\<close>

definition applyESOPPoolExtension :: "CapTableState \<Rightarrow> Event \<Rightarrow> rat \<Rightarrow> error + CapTableState" where
  "applyESOPPoolExtension state event targetPercent =
     bindE (calculateESOPExtension (of_int (fullyDilutedShares state))
              (of_int (getUnallocatedESOPPool state)) (targetPercent / 100)) (\<lambda>extension.
       if 0 < extension then
         (case find (\<lambda>sc. sc_type sc = OptionClass) (shareClasses state) of
            None \<Rightarrow> Inr state
          | Some optionClass \<Rightarrow>
              Inr (state\<lparr>holdings :=
                     updateFirst
                       (\<lambda>h. holderId h = ESOP_POOL_HOLDER_ID \<and> shareClassId h = sc_id optionClass)
                       (\<lambda>h. h\<lparr>quantity := quantity h + extension\<rparr>) (holdings state)\<rparr>))
       else Inr state)"

text \<open>\<^verbatim>\<open>vestedOptions < exerciseShares\<close> on JavaScript numbers: false for \<open>NaN\<close>.\<close>

definition jsLess :: "jsint \<Rightarrow> int \<Rightarrow> bool" where
  "jsLess v n = (case v of Fin k \<Rightarrow> k < n | NaN \<Rightarrow> False | NegInfinity \<Rightarrow> True)"

text \<open>The two searches of \<^verbatim>\<open>applyOptionExercise\<close>: the employee's holding of the option
  class that is an option, and the employee's holding of the common class that is not.\<close>

definition isOptionHoldingOf :: "string \<Rightarrow> ShareClass \<Rightarrow> SecurityHolding \<Rightarrow> bool" where
  "isOptionHoldingOf employee optionClass h \<longleftrightarrow>
     holderId h = employee \<and> shareClassId h = sc_id optionClass \<and> isOption h"

definition isCommonHoldingOf :: "string \<Rightarrow> ShareClass \<Rightarrow> SecurityHolding \<Rightarrow> bool" where
  "isCommonHoldingOf employee commonClass h \<longleftrightarrow>
     holderId h = employee \<and> shareClassId h = sc_id commonClass \<and> \<not> isOption h"

text \<open>\<^verbatim>\<open>applyOptionExercise\<close>\<close>

definition applyOptionExercise :: "uuids \<Rightarrow> CapTableState \<Rightarrow> Event \<Rightarrow> OptionExerciseData \<Rightarrow> error + CapTableState" where
  "applyOptionExercise uuid state event data =
     (case (find (\<lambda>sc. sc_type sc = OptionClass) (shareClasses state),
            find (\<lambda>sc. sc_type sc = Common) (shareClasses state)) of
        (Some optionClass, Some commonClass) \<Rightarrow>
          (let isOptionHolding = isOptionHoldingOf (ox_employeeId data) optionClass
           in case find isOptionHolding (holdings state) of
                None \<Rightarrow> Inl NoOptionHoldings
              | Some optionHolding \<Rightarrow>
                  (let exerciseShares = ox_shares data;
                       currentOptions = quantity optionHolding;
                       vestedOptions = calculateVestedOptions optionHolding (e_date event) state
                   in if jsLess vestedOptions exerciseShares
                      then Inl (InsufficientVested vestedOptions exerciseShares)
                      else
                        let holdings1 =
                              updateFirst isOptionHolding
                                (\<lambda>h. h\<lparr>quantity := currentOptions - exerciseShares\<rparr>) (holdings state);
                            isCommonHolding = isCommonHoldingOf (ox_employeeId data) commonClass
                        in case find isCommonHolding holdings1 of
                             Some _ \<Rightarrow>
                               Inr (state\<lparr>holdings :=
                                      updateFirst isCommonHolding
                                        (\<lambda>h. h\<lparr>quantity := quantity h + exerciseShares\<rparr>) holdings1\<rparr>)
                           | None \<Rightarrow>
                               Inr (state\<lparr>holdings := holdings1 @
                                      [newHolding (uuid 0) (ox_employeeId data) (sc_id commonClass)
                                         exerciseShares (e_id event) False]\<rparr>)))
      | _ \<Rightarrow> Inl ShareClassNotFound)"

section \<open>Exit waterfall\<close>

record ExitDistribution =
  d_holderId :: string
  d_holderName :: string
  d_holderType :: PersonType
  proceeds :: rat
  percentOfExit :: rat
  d_investmentAmount :: rat
  multiple :: "rat option"
  d_method :: string

record ExitWaterfall =
  exitValuation :: rat
  distributions :: "ExitDistribution list"
  totalDistributed :: rat

text \<open>
  The fields \<open>proceeds\<close>, \<open>percentOfExit\<close> and \<open>totalDistributed\<close> hold the numbers that
  the texts produced by \<^verbatim>\<open>toFixed(2)\<close> denote; \<open>multiple\<close> is \<open>None\<close> for \<^verbatim>\<open>'N/A'\<close>.
\<close>

subsection \<open>Step 1: the outstanding SAFEs convert at the exit price\<close>

definition safeConversionClass :: "string \<Rightarrow> rat \<Rightarrow> ShareClass" where
  "safeConversionClass cid price =
     \<lparr>sc_id = cid, sc_name = ''SAFE Conversion'', sc_type = Preferred, seniorityRank = 1,
      liquidationPreferenceMultiple = 1, participation = NonParticipating,
      participationCapMultiple = None, isConvertibleToCommon = True, pricePerShare = Some price\<rparr>"

text \<open>The loop over the unconverted SAFEs; \<open>k\<close> counts the identifiers drawn so far.\<close>

fun convertSafesAtExit ::
  "uuids \<Rightarrow> nat \<Rightarrow> string \<Rightarrow> rat \<Rightarrow> rat \<Rightarrow> SAFE list \<Rightarrow> CapTableState \<Rightarrow> error + CapTableState" where
  "convertSafesAtExit uuid k classId exitPricePerShare preExitFD [] st = Inr st"
| "convertSafesAtExit uuid k classId exitPricePerShare preExitFD (safe # rest) st =
     bindE (decDiv (principalAmount safe) (inlinedEffectivePrice safe exitPricePerShare preExitFD))
       (\<lambda>q. convertSafesAtExit uuid (Suc k) classId exitPricePerShare preExitFD rest
              (st\<lparr>people := addPersonIfAbsent (safeInvestor safe) (people st),
                  holdings := holdings st @
                    [(newHolding (uuid k) (investorId safe) classId (roundShares q) '''' False)
                       \<lparr>investmentAmount := Some (principalAmount safe)\<rparr>]\<rparr>))"

text \<open>
  The exit state. The SAFEs convert into the most senior preferred class (first in the
  stable sort by descending rank), or into a new class when there is no preferred class.
\<close>

definition exitStateOf :: "uuids \<Rightarrow> CapTableState \<Rightarrow> rat \<Rightarrow> error + CapTableState" where
  "exitStateOf uuid state exitValue =
     (let unconvertedSAFEs = filter (\<lambda>s. convertedInEventId s = None) (safes state)
      in if unconvertedSAFEs = [] then Inr state
         else
           let preExitFD = of_int (sum_list (map quantity (holdings state)))
           in bindE (decDiv exitValue preExitFD) (\<lambda>exitPricePerShare.
                let existingPreferred = filter (\<lambda>sc. sc_type sc = Preferred) (shareClasses state);
                    (safeConversionClassId, state1, k) =
                       (case sort_key (\<lambda>sc. - seniorityRank sc) existingPreferred of
                          senior # _ \<Rightarrow> (sc_id senior, state, 0 :: nat)
                        | [] \<Rightarrow>
                            (uuid 0,
                             state\<lparr>shareClasses := shareClasses state @
                                     [safeConversionClass (uuid 0) exitPricePerShare]\<rparr>,
                             1))
                in convertSafesAtExit uuid k safeConversionClassId exitPricePerShare preExitFD
                     unconvertedSAFEs state1))"

subsection \<open>Step 2: liquidation preferences\<close>

text \<open>\<^verbatim>\<open>classTotals[id] || new Decimal(0)\<close>: the shares held in a class.\<close>

definition classTotal :: "CapTableState \<Rightarrow> string \<Rightarrow> int" where
  "classTotal st cid = sum_list (map quantity (filter (\<lambda>h. shareClassId h = cid) (holdings st)))"

text \<open>\<^verbatim>\<open>holderInvestments[id] || new Decimal(0)\<close>: the amounts invested by a holder.\<close>

definition holderInvestment :: "CapTableState \<Rightarrow> string \<Rightarrow> rat" where
  "holderInvestment st holder =
     sum_list (map (\<lambda>h. case investmentAmount h of None \<Rightarrow> 0 | Some a \<Rightarrow> a)
                 (filter (\<lambda>h. holderId h = holder) (holdings st)))"

definition totalCommonEquivalent :: "CapTableState \<Rightarrow> int" where
  "totalCommonEquivalent st =
     sum_list (map (\<lambda>sc. classTotal st (sc_id sc))
                 (filter (\<lambda>sc. sc_type sc \<noteq> OptionClass) (shareClasses st)))"

text \<open>
  The \<^verbatim>\<open>Map\<close> \<open>distributions\<close> of the source adds up, per holder id, the proceeds of every
  holding paid and collects the methods. The model keeps the payments in the order in
  which they are made; the proceeds of a holder are the sum of the payments made to that
  id, and a holder has an entry exactly when some payment was made to that id.
\<close>

record Payout =
  pay_holderId :: string
  pay_amount :: rat
  pay_method :: string

text \<open>\<^verbatim>\<open>prefClass.liquidationPreferenceMultiple || 1\<close>\<close>

definition preferenceMultipleOf :: "ShareClass \<Rightarrow> rat" where
  "preferenceMultipleOf prefClass =
     (if liquidationPreferenceMultiple prefClass = 0 then 1
      else liquidationPreferenceMultiple prefClass)"

definition holderPreference :: "ShareClass \<Rightarrow> SecurityHolding \<Rightarrow> rat" where
  "holderPreference prefClass holding =
     of_int (quantity holding) * (case pricePerShare prefClass of None \<Rightarrow> 0 | Some p \<Rightarrow> p)
       * preferenceMultipleOf prefClass"

definition holderConversion :: "rat \<Rightarrow> int \<Rightarrow> SecurityHolding \<Rightarrow> rat" where
  "holderConversion exitValue tce holding = exitValue * of_int (quantity holding) / of_int tce"

text \<open>The body of the loop over the holdings of one preferred class.\<close>

definition holdingPayout :: "rat \<Rightarrow> int \<Rightarrow> ShareClass \<Rightarrow> SecurityHolding \<Rightarrow> Payout" where
  "holdingPayout exitValue tce prefClass holding =
     (if participation prefClass = Participating then
        \<lparr>pay_holderId = holderId holding, pay_amount = holderPreference prefClass holding,
         pay_method = ''participating''\<rparr>
      else if holderConversion exitValue tce holding < holderPreference prefClass holding then
        \<lparr>pay_holderId = holderId holding, pay_amount = holderPreference prefClass holding,
         pay_method = ''preference''\<rparr>
      else
        \<lparr>pay_holderId = holderId holding, pay_amount = holderConversion exitValue tce holding,
         pay_method = ''conversion''\<rparr>)"

text \<open>The preferred classes in descending seniority that hold shares.\<close>

definition payingClasses :: "CapTableState \<Rightarrow> ShareClass list" where
  "payingClasses st =
     filter (\<lambda>sc. classTotal st (sc_id sc) \<noteq> 0)
       (sort_key (\<lambda>sc. - seniorityRank sc)
          (filter (\<lambda>sc. sc_type sc = Preferred) (shareClasses st)))"

definition preferencePayouts :: "CapTableState \<Rightarrow> rat \<Rightarrow> error + Payout list" where
  "preferencePayouts st exitValue =
     (if payingClasses st \<noteq> [] \<and> totalCommonEquivalent st = 0 then Inl NonFinite
      else Inr (concat (map (\<lambda>prefClass.
                   map (holdingPayout exitValue (totalCommonEquivalent st) prefClass)
                     (filter (\<lambda>h. shareClassId h = sc_id prefClass) (holdings st)))
                 (payingClasses st))))"

subsection \<open>Step 3: the rest goes to the common holders\<close>

definition commonHoldings :: "CapTableState \<Rightarrow> SecurityHolding list" where
  "commonHoldings st =
     filter (\<lambda>h. case find (\<lambda>s. sc_id s = shareClassId h) (shareClasses st) of
                   None \<Rightarrow> False
                 | Some sc \<Rightarrow> sc_type sc = Common \<and> \<not> isOption h)
       (holdings st)"

definition remainingProceeds :: "rat \<Rightarrow> Payout list \<Rightarrow> rat" where
  "remainingProceeds exitValue paid = max (exitValue - sum_list (map pay_amount paid)) 0"

definition commonPayouts :: "CapTableState \<Rightarrow> rat \<Rightarrow> Payout list" where
  "commonPayouts st remaining =
     (let totalCommon = sum_list (map quantity (commonHoldings st))
      in map (\<lambda>h. \<lparr>pay_holderId = holderId h,
                    pay_amount = (if totalCommon = 0 then 0
                                  else remaining * of_int (quantity h) / of_int totalCommon),
                    pay_method = ''common''\<rparr>)
           (commonHoldings st))"

subsection \<open>The result rows\<close>

text \<open>\<^verbatim>\<open>[...new Set(methods)].join(', ')\<close>: first occurrences, in order.\<close>

definition uniqueInOrder :: "'a list \<Rightarrow> 'a list" where
  "uniqueInOrder xs = rev (remdups (rev xs))"

fun joinWith :: "string \<Rightarrow> string list \<Rightarrow> string" where
  "joinWith sep [] = []"
| "joinWith sep [x] = x"
| "joinWith sep (x # y # zs) = x @ sep @ joinWith sep (y # zs)"

definition payoutsOf :: "string \<Rightarrow> Payout list \<Rightarrow> Payout list" where
  "payoutsOf holder payouts = filter (\<lambda>po. pay_holderId po = holder) payouts"

definition holderProceeds :: "string \<Rightarrow> Payout list \<Rightarrow> rat" where
  "holderProceeds holder payouts = sum_list (map pay_amount (payoutsOf holder payouts))"

definition exitRow :: "CapTableState \<Rightarrow> rat \<Rightarrow> Payout list \<Rightarrow> Person \<Rightarrow> ExitDistribution" where
  "exitRow st exitValue payouts person =
     (let raw = holderProceeds (p_id person) payouts;
          investment = holderInvestment st (p_id person)
      in \<lparr>d_holderId = p_id person, d_holderName = p_name person, d_holderType = p_type person,
          proceeds = toFixed2 raw,
          percentOfExit = toFixed2 (raw / exitValue * 100),
          d_investmentAmount = investment,
          multiple = (if investment = 0 then None else Some (toFixed2 (raw / investment))),
          d_method = joinWith '', '' (uniqueInOrder (map pay_method (payoutsOf (p_id person) payouts)))\<rparr>)"

text \<open>The people who receive a row: not the pool, and paid at least once.\<close>

definition paidPeople :: "CapTableState \<Rightarrow> Payout list \<Rightarrow> Person list" where
  "paidPeople st payouts =
     filter (\<lambda>p. p_id p \<noteq> ESOP_POOL_HOLDER_ID \<and> payoutsOf (p_id p) payouts \<noteq> []) (people st)"

text \<open>\<^verbatim>\<open>calculateExitWaterfall\<close> from the exit state on. The rows are sorted by descending
  proceeds; the total is the sum of the proceeds of the rows, themselves rounded to cents.\<close>

definition waterfallOfExitState :: "CapTableState \<Rightarrow> rat \<Rightarrow> error + ExitWaterfall" where
  "waterfallOfExitState st exitValue =
     bindE (preferencePayouts st exitValue) (\<lambda>preferred.
       let payouts = preferred @ commonPayouts st (remainingProceeds exitValue preferred);
           receivers = paidPeople st payouts
       in if receivers \<noteq> [] \<and> exitValue = 0 then Inl NonFinite
          else
            let results = sort_key (\<lambda>r. - proceeds r) (map (exitRow st exitValue payouts) receivers)
            in Inr \<lparr>exitValuation = exitValue, distributions = results,
                    totalDistributed = toFixed2 (sum_list (map proceeds results))\<rparr>)"

definition calculateExitWaterfall :: "uuids \<Rightarrow> CapTableState \<Rightarrow> rat \<Rightarrow> error + ExitWaterfall" where
  "calculateExitWaterfall uuid state exitValue =
     bindE (exitStateOf uuid state exitValue) (\<lambda>exitState. waterfallOfExitState exitState exitValue)"

section \<open>Event handlers: incorporation, SAFEs, grants and priced rounds\<close>

text \<open>A text that the source stores and later tests for truthiness: the empty text counts
  as absent.\<close>

definition textOpt :: "string \<Rightarrow> string option" where
  "textOpt s = (if s = [] then None else Some s)"

subsection \<open>Incorporation\<close>

definition commonShareClass :: "string \<Rightarrow> rat option \<Rightarrow> ShareClass" where
  "commonShareClass cid price =
     \<lparr>sc_id = cid, sc_name = ''Common'', sc_type = Common, seniorityRank = 0,
      liquidationPreferenceMultiple = 1, participation = NonParticipating,
      participationCapMultiple = None, isConvertibleToCommon = False,
      pricePerShare = Some (case price of None \<Rightarrow> 1 / 10000 | Some p \<Rightarrow> p)\<rparr>"

text \<open>
  The founder allocations, each a person id with a share count. In percentage mode they
  come from the allocator (an absent percentage is 0); in shares mode from
  \<^verbatim>\<open>parseInt(f.shares, 10)\<close>, which is \<open>NaN\<close>, here \<open>None\<close>, for an absent count.
\<close>

definition founderAllocationsOf :: "IncorporationData \<Rightarrow> (string \<times> int option) list" where
  "founderAllocationsOf data =
     (case founderInputMode data of
        PercentageMode \<Rightarrow>
          map (\<lambda>a. (a_id a, Some (shares a)))
            (distributeSharesByLargestRemainder (roundShares (totalIssuedShares data))
               (map (\<lambda>f. \<lparr>r_id = f_personId f,
                            proportion = (case f_percentage f of None \<Rightarrow> 0 | Some p \<Rightarrow> p) / 100\<rparr>)
                  (founders data)))
      | SharesMode \<Rightarrow> map (\<lambda>f. (f_personId f, f_shares f)) (founders data))"

text \<open>\<^verbatim>\<open>String(allocation?.shares || 0)\<close> for the first allocation with the founder's id.\<close>

definition allocatedQuantity :: "(string \<times> int option) list \<Rightarrow> string \<Rightarrow> int" where
  "allocatedQuantity allocations pid =
     (case find (\<lambda>a. fst a = pid) allocations of
        Some (_, Some n) \<Rightarrow> n
      | _ \<Rightarrow> 0)"

text \<open>The loop over the founders; \<open>k\<close> counts the identifiers drawn so far.\<close>

fun addFounders ::
  "uuids \<Rightarrow> nat \<Rightarrow> string \<Rightarrow> string \<Rightarrow> (string \<times> int option) list \<Rightarrow> FounderInput list
     \<Rightarrow> CapTableState \<Rightarrow> CapTableState" where
  "addFounders uuid k commonClassId eventId allocations [] st = st"
| "addFounders uuid k commonClassId eventId allocations (founder # rest) st =
     addFounders uuid (Suc k) commonClassId eventId allocations rest
       (st\<lparr>people := addPersonIfAbsent
                        \<lparr>p_id = f_personId founder, p_name = f_name founder, p_type = Founder\<rparr>
                        (people st),
           holdings := holdings st @
             [newHolding (uuid k) (f_personId founder) commonClassId
                (allocatedQuantity allocations (f_personId founder)) eventId False]\<rparr>)"

text \<open>\<^verbatim>\<open>founderAllocations.reduce((sum, f) => sum + f.shares, 0)\<close>: \<open>NaN\<close> as soon as one
  count is.\<close>

fun founderTotal :: "(string \<times> int option) list \<Rightarrow> int option" where
  "founderTotal [] = Some 0"
| "founderTotal ((_, None) # rest) = None"
| "founderTotal ((_, Some n) # rest) = map_option (\<lambda>t. n + t) (founderTotal rest)"

text \<open>The size of the pool created at incorporation. The test of the percentage comes
  before any arithmetic on the founder total.\<close>

definition incorporationPoolShares :: "(string \<times> int option) list \<Rightarrow> PoolSize \<Rightarrow> error + int" where
  "incorporationPoolShares allocations pool =
     (case pool of
        PoolShares n \<Rightarrow> Inr n
      | PoolPercentage percentage \<Rightarrow>
          (case founderTotal allocations of
             Some t \<Rightarrow> calculateESOPPoolFromPercent (of_int t) (percentage / 100)
           | None \<Rightarrow> if 1 \<le> percentage / 100 then Inl TargetPercentTooHigh else Inl NonFinite))"

text \<open>
  \<^verbatim>\<open>applyIncorporation\<close>. Identifiers are drawn in this order: the common class, one per
  founder holding, then the option class and the pool holding. The pool person is pushed
  without looking for an existing one.
\<close>

definition applyIncorporation :: "uuids \<Rightarrow> CapTableState \<Rightarrow> Event \<Rightarrow> IncorporationData \<Rightarrow> error + CapTableState" where
  "applyIncorporation uuid state event data =
     (let commonClassId = uuid 0;
          state1 = state\<lparr>shareClasses := shareClasses state @
                            [commonShareClass commonClassId (inc_pricePerShare data)]\<rparr>;
          state2 = (case esopPool data of
                      None \<Rightarrow> state1
                    | Some _ \<Rightarrow> state1\<lparr>people := people state1 @ [poolPerson]\<rparr>);
          allocations = founderAllocationsOf data;
          state3 = addFounders uuid 1 commonClassId (e_id event) allocations (founders data) state2;
          k = Suc (length (founders data))
      in case esopPool data of
           None \<Rightarrow> Inr state3
         | Some pool \<Rightarrow>
             bindE (incorporationPoolShares allocations pool) (\<lambda>esopShares.
               Inr (state3\<lparr>shareClasses := shareClasses state3 @ [employeeOptionsClass (uuid k)],
                          holdings := holdings state3 @
                            [newHolding (uuid (Suc k)) ESOP_POOL_HOLDER_ID (uuid k) esopShares
                               (e_id event) True]\<rparr>)))"

subsection \<open>SAFE issuance\<close>

text \<open>
  \<^verbatim>\<open>applySAFEIssuance\<close>. A SAFE without an id of its own draws the next identifier; an
  absent valuation type is \<^verbatim>\<open>'post_money'\<close>; the investor becomes a person, under the
  name given (the empty text when there is none).
\<close>

fun issueSafes :: "uuids \<Rightarrow> nat \<Rightarrow> int \<Rightarrow> SAFEInput list \<Rightarrow> CapTableState \<Rightarrow> CapTableState" where
  "issueSafes uuid k date [] st = st"
| "issueSafes uuid k date (safe # rest) st =
     issueSafes uuid (case si_id safe of None \<Rightarrow> Suc k | Some _ \<Rightarrow> k) date rest
       (st\<lparr>people := addPersonIfAbsent
                        \<lparr>p_id = si_investorId safe,
                         p_name = (case si_investorName safe of None \<Rightarrow> [] | Some n \<Rightarrow> n),
                         p_type = Investor\<rparr>
                        (people st),
           safes := safes st @
             [\<lparr>safe_id = (case si_id safe of None \<Rightarrow> uuid k | Some i \<Rightarrow> i),
               investorId = si_investorId safe,
               investorName = si_investorName safe,
               principalAmount = si_principalAmount safe,
               valuationType = (case si_valuationType safe of None \<Rightarrow> PostMoney | Some v \<Rightarrow> v),
               valuationCap = si_valuationCap safe,
               discountPercent = si_discountPercent safe,
               mostFavoredNation = si_mostFavoredNation safe,
               issueDate = date,
               convertedInEventId = None\<rparr>]\<rparr>)"

definition applySAFEIssuance :: "uuids \<Rightarrow> CapTableState \<Rightarrow> Event \<Rightarrow> SAFEInput list \<Rightarrow> error + CapTableState" where
  "applySAFEIssuance uuid state event data = Inr (issueSafes uuid 0 (e_date event) data state)"

subsection \<open>Option grant\<close>

text \<open>
  The size of a grant. By percentage (taken only when the percentage is not 0) it is
  \<^verbatim>\<open>Math.round(p * FD / (1 - p))\<close>, which rounds a half upwards; otherwise the share
  count given, 0 when there is none.
\<close>

definition grantSharesOf :: "CapTableState \<Rightarrow> GrantSize \<Rightarrow> error + int" where
  "grantSharesOf state grantSize =
     (case grantSize of
        GrantShares n \<Rightarrow> Inr n
      | GrantPercentage percentage \<Rightarrow>
          if percentage = 0 then Inr 0
          else
            let targetPercent = percentage / 100
            in bindE (decDiv (targetPercent * of_int (fullyDilutedShares state)) (1 - targetPercent))
                 (\<lambda>q. Inr \<lfloor>q + 1 / 2\<rfloor>))"

text \<open>
  \<^verbatim>\<open>applyESOPGrant\<close>. The pool holding, when there is one, must cover the grant and is
  reduced by it. A vesting schedule given with the grant is stored under a fresh
  identifier unless the grant names a schedule id.
\<close>

definition applyESOPGrant :: "uuids \<Rightarrow> CapTableState \<Rightarrow> Event \<Rightarrow> ESOPGrantData \<Rightarrow> error + CapTableState" where
  "applyESOPGrant uuid state event data =
     (let state1 = state\<lparr>people := addPersonIfAbsent
                        \<lparr>p_id = g_employeeId data, p_name = g_employeeName data, p_type = Employee\<rparr>
                        (people state)\<rparr>
      in case find (\<lambda>sc. sc_type sc = OptionClass) (shareClasses state1) of
           None \<Rightarrow> Inl NoOptionShareClass
         | Some optionClass \<Rightarrow>
             bindE (grantSharesOf state1 (g_size data)) (\<lambda>grantShares.
               let isPool = (\<lambda>h. holderId h = ESOP_POOL_HOLDER_ID \<and> shareClassId h = sc_id optionClass)
               in bindE (case find isPool (holdings state1) of
                           None \<Rightarrow> Inr state1
                         | Some poolHolding \<Rightarrow>
                             if quantity poolHolding < grantShares
                             then Inl (InsufficientPool (quantity poolHolding) grantShares)
                             else Inr (state1\<lparr>holdings :=
                                         updateFirst isPool
                                           (\<lambda>h. h\<lparr>quantity := quantity poolHolding - grantShares\<rparr>)
                                           (holdings state1)\<rparr>)) (\<lambda>state2.
                    let (state3, scheduleId, k) =
                          (case (g_vestingSchedule data, g_vestingScheduleId data) of
                             (Some vs, None) \<Rightarrow>
                               (state2\<lparr>vestingSchedules := vestingSchedules state2 @
                                         [\<lparr>vs_id = uuid 0, cliffMonths = vi_cliffMonths vs,
                                           totalMonths = vi_totalMonths vs,
                                           initialCliffPercent = vi_initialCliffPercent vs\<rparr>]\<rparr>,
                                textOpt (uuid 0), 1 :: nat)
                           | (_, sid) \<Rightarrow> (state2, sid, 0))
                    in Inr (state3\<lparr>holdings := holdings state3 @
                              [\<lparr>h_id = uuid k, holderId = g_employeeId data,
                                shareClassId = sc_id optionClass, quantity = grantShares,
                                sourceEventId = e_id event, isOption = True,
                                strikePrice = g_strikePrice data, vestingScheduleId = scheduleId,
                                vestingStartDate =
                                  Some (case g_vestingStartDate data of
                                          None \<Rightarrow> e_date event | Some d \<Rightarrow> d),
                                grantDate = Some (e_date event), investmentAmount = None\<rparr>]\<rparr>))))"

subsection \<open>Priced round\<close>

text \<open>
  The share estimate of one converting SAFE inside the post-money iteration, added to the
  running total \<open>acc\<close>. A post-money SAFE with a cap is sized by the ownership
  \<open>principal / cap\<close> it buys of everything counted so far; any other SAFE by its principal
  over the lowered price.
\<close>

definition estimateSafeShares :: "rat \<Rightarrow> rat \<Rightarrow> rat \<Rightarrow> SAFE \<Rightarrow> rat \<Rightarrow> error + rat" where
  "estimateSafeShares price preRoundFD totalNewShares safe acc =
     (case (valuationType safe, valuationCap safe) of
        (PostMoney, Some cap) \<Rightarrow>
          bindE (decDiv (principalAmount safe) cap) (\<lambda>ownershipPercent.
            let totalSharesEstimate = preRoundFD + totalNewShares + acc
            in bindE (decDiv (totalSharesEstimate * ownershipPercent) (1 - ownershipPercent))
                 (\<lambda>safeShares. Inr (acc + safeShares)))
      | _ \<Rightarrow>
          bindE (decDiv (principalAmount safe) (inlinedEffectivePrice safe price preRoundFD))
            (\<lambda>safeShares. Inr (acc + safeShares)))"

fun estimateAllSafeShares :: "rat \<Rightarrow> rat \<Rightarrow> rat \<Rightarrow> SAFE list \<Rightarrow> rat \<Rightarrow> error + rat" where
  "estimateAllSafeShares price preRoundFD totalNewShares [] acc = Inr acc"
| "estimateAllSafeShares price preRoundFD totalNewShares (safe # rest) acc =
     bindE (estimateSafeShares price preRoundFD totalNewShares safe acc)
       (estimateAllSafeShares price preRoundFD totalNewShares rest)"

text \<open>
  The loop \<^verbatim>\<open>for (let iter = 0; iter < 10; iter++)\<close>: \<open>n\<close> is the number of iterations
  left. An iteration that moves the price by less than 0.0001 is the last one.
\<close>

fun iteratePrice :: "nat \<Rightarrow> rat \<Rightarrow> rat \<Rightarrow> rat \<Rightarrow> SAFE list \<Rightarrow> rat \<Rightarrow> error + rat" where
  "iteratePrice 0 postMoneyValuation totalCashInvestment preRoundFD convertingSafes price =
     Inr price"
| "iteratePrice (Suc n) postMoneyValuation totalCashInvestment preRoundFD convertingSafes price =
     bindE (decDiv totalCashInvestment price) (\<lambda>totalNewShares.
       bindE (estimateAllSafeShares price preRoundFD totalNewShares convertingSafes 0)
         (\<lambda>totalSafeSharesCalc.
            bindE (decDiv postMoneyValuation (preRoundFD + totalNewShares + totalSafeSharesCalc))
              (\<lambda>newPrice.
                 if \<bar>newPrice - price\<bar> < 1 / 10000 then Inr newPrice
                 else iteratePrice n postMoneyValuation totalCashInvestment preRoundFD
                        convertingSafes newPrice)))"

text \<open>The price of the round from the valuation input. The post-money valuation that the
  first branch also computes is not used afterwards, but its division is carried out.\<close>

definition roundPriceOf :: "ValuationInput \<Rightarrow> rat \<Rightarrow> rat \<Rightarrow> SAFE list \<Rightarrow> error + rat" where
  "roundPriceOf v totalCashInvestment preRoundFD convertingSafes =
     (case v of
        ByPricePerShare p \<Rightarrow> bindE (decDiv totalCashInvestment p) (\<lambda>newShares. Inr p)
      | ByPreMoney preMoney \<Rightarrow> decDiv preMoney preRoundFD
      | ByPostMoney postMoney \<Rightarrow>
          bindE (decDiv (postMoney - totalCashInvestment) preRoundFD)
            (iteratePrice 10 postMoney totalCashInvestment preRoundFD convertingSafes))"

text \<open>\<^verbatim>\<open>data.safesToConvert || (ids of the unconverted SAFEs)\<close>: an empty list given by the
  event is a list, and converts nothing.\<close>

definition safesToConvertOf :: "CapTableState \<Rightarrow> PricedRoundData \<Rightarrow> string list" where
  "safesToConvertOf state data =
     (case safesToConvert data of
        Some ids \<Rightarrow> ids
      | None \<Rightarrow> map safe_id (filter (\<lambda>s. convertedInEventId s = None) (safes state)))"

definition convertingSafesOf :: "CapTableState \<Rightarrow> string list \<Rightarrow> SAFE list" where
  "convertingSafesOf state ids =
     concat (map (\<lambda>i. case find (\<lambda>s. safe_id s = i) (safes state) of
                        None \<Rightarrow> []
                      | Some s \<Rightarrow> if convertedInEventId s = None then [s] else [])
               ids)"

text \<open>\<^verbatim>\<open>`Series ${String.fromCharCode(65 + n)}`\<close>\<close>

definition seriesName :: "nat \<Rightarrow> string" where
  "seriesName n = ''Series '' @ [char_of (65 + n)]"

definition preferredShareClass :: "string \<Rightarrow> PricedRoundData \<Rightarrow> nat \<Rightarrow> rat \<Rightarrow> ShareClass" where
  "preferredShareClass cid data existing price =
     \<lparr>sc_id = cid,
      sc_name = (case shareClassName data of None \<Rightarrow> seriesName existing | Some n \<Rightarrow> n),
      sc_type = Preferred,
      seniorityRank = int existing + 1,
      liquidationPreferenceMultiple =
        (case liquidationPreference data of None \<Rightarrow> 1 | Some m \<Rightarrow> if m = 0 then 1 else m),
      participation = (case pr_participation data of None \<Rightarrow> NonParticipating | Some p \<Rightarrow> p),
      participationCapMultiple = participationCap data,
      isConvertibleToCommon = True,
      pricePerShare = Some price\<rparr>"

text \<open>
  The loop over the ids to convert. The SAFE found is converted with
  \<open>calculateSAFEConversion\<close> at the round price and the pre-round share count, and marked
  with the event id, so that a second occurrence of its id is skipped.
\<close>

fun convertSafes ::
  "uuids \<Rightarrow> nat \<Rightarrow> string \<Rightarrow> string \<Rightarrow> rat \<Rightarrow> rat \<Rightarrow> string list \<Rightarrow> CapTableState
     \<Rightarrow> error + CapTableState \<times> nat" where
  "convertSafes uuid k eventId preferredClassId price preRoundFD [] st = Inr (st, k)"
| "convertSafes uuid k eventId preferredClassId price preRoundFD (safeId # rest) st =
     (case find (\<lambda>s. safe_id s = safeId) (safes st) of
        None \<Rightarrow> convertSafes uuid k eventId preferredClassId price preRoundFD rest st
      | Some safe \<Rightarrow>
          if convertedInEventId safe \<noteq> None
          then convertSafes uuid k eventId preferredClassId price preRoundFD rest st
          else
            bindE (calculateSAFEConversion safe price preRoundFD) (\<lambda>conversionResult.
              convertSafes uuid (Suc k) eventId preferredClassId price preRoundFD rest
                (st\<lparr>people := addPersonIfAbsent (safeInvestor safe) (people st),
                    holdings := holdings st @
                      [(newHolding (uuid k) (investorId safe) preferredClassId
                          (conv_shares conversionResult) eventId False)
                         \<lparr>investmentAmount := Some (principalAmount safe)\<rparr>],
                    safes := updateFirst (\<lambda>s. safe_id s = safeId)
                               (\<lambda>s. s\<lparr>convertedInEventId := textOpt eventId\<rparr>) (safes st)\<rparr>)))"

text \<open>The investors that count: \<^verbatim>\<open>inv.amount && parseFloat(inv.amount) > 0\<close>.\<close>

definition cashInvestors :: "PricedRoundData \<Rightarrow> InvestorInput list" where
  "cashInvestors data =
     filter (\<lambda>iv. case inv_amount iv of None \<Rightarrow> False | Some a \<Rightarrow> 0 < a) (investors data)"

definition amountOf :: "InvestorInput \<Rightarrow> rat" where
  "amountOf iv = (case inv_amount iv of None \<Rightarrow> 0 | Some a \<Rightarrow> a)"

text \<open>The loop that issues the new shares: one holding per investor, with the share count
  of the first allocation under the investor's id.\<close>

fun issueToInvestors ::
  "uuids \<Rightarrow> nat \<Rightarrow> string \<Rightarrow> string \<Rightarrow> Allocation list \<Rightarrow> InvestorInput list \<Rightarrow> CapTableState
     \<Rightarrow> CapTableState" where
  "issueToInvestors uuid k eventId preferredClassId distribution [] st = st"
| "issueToInvestors uuid k eventId preferredClassId distribution (investor # rest) st =
     issueToInvestors uuid (Suc k) eventId preferredClassId distribution rest
       (st\<lparr>people := addPersonIfAbsent
                        \<lparr>p_id = inv_personId investor, p_name = inv_name investor, p_type = Investor\<rparr>
                        (people st),
           holdings := holdings st @
             [(newHolding (uuid k) (inv_personId investor) preferredClassId
                 (case find (\<lambda>d. a_id d = inv_personId investor) distribution of
                    None \<Rightarrow> 0 | Some d \<Rightarrow> shares d)
                 eventId False)
                \<lparr>investmentAmount := inv_amount investor\<rparr>]\<rparr>)"

text \<open>The pool top-up of a round: taken when the target is not 0 and an option class
  exists; the first option holding of the pool is raised by the extension.\<close>

definition topUpPool :: "CapTableState \<Rightarrow> rat option \<Rightarrow> error + CapTableState" where
  "topUpPool state target =
     (case target of
        None \<Rightarrow> Inr state
      | Some targetPercent \<Rightarrow>
          if targetPercent = 0 then Inr state
          else
            (case find (\<lambda>sc. sc_type sc = OptionClass) (shareClasses state) of
               None \<Rightarrow> Inr state
             | Some optionClass \<Rightarrow>
                 bindE (calculateESOPExtension (of_int (fullyDilutedShares state))
                          (of_int (getUnallocatedESOPPool state)) (targetPercent / 100))
                   (\<lambda>extension.
                      if 0 < extension then
                        Inr (state\<lparr>holdings :=
                               updateFirst (\<lambda>h. holderId h = ESOP_POOL_HOLDER_ID \<and> isOption h)
                                 (\<lambda>h. h\<lparr>quantity := quantity h + extension\<rparr>) (holdings state)\<rparr>)
                      else Inr state)))"

text \<open>\<^verbatim>\<open>applyPricedRound\<close>\<close>

definition applyPricedRound :: "uuids \<Rightarrow> CapTableState \<Rightarrow> Event \<Rightarrow> PricedRoundData \<Rightarrow> error + CapTableState" where
  "applyPricedRound uuid state event data =
     (let preRoundFD = of_int (fullyDilutedShares state);
          ids = safesToConvertOf state data;
          convertingSafes = convertingSafesOf state ids;
          totalCashInvestment = totalNewMoney data
      in bindE (roundPriceOf (valuation data) totalCashInvestment preRoundFD convertingSafes)
           (\<lambda>price.
              let (preferredClassId, state1, k0) =
                    (if pr_shareClassId data = None \<or> createNewShareClass data then
                       (uuid 0,
                        state\<lparr>shareClasses := shareClasses state @
                                [preferredShareClass (uuid 0) data
                                   (length (filter (\<lambda>sc. sc_type sc = Preferred) (shareClasses state)))
                                   price]\<rparr>,
                        1 :: nat)
                     else (case pr_shareClassId data of Some cid \<Rightarrow> cid | None \<Rightarrow> [], state, 0))
              in bindE (convertSafes uuid k0 (e_id event) preferredClassId price preRoundFD
                          ids state1)
                   (\<lambda>(state2, k1).
                      let cash = cashInvestors data;
                          totalCashInvestmentActual = sum_list (map amountOf cash)
                      in bindE (if totalCashInvestmentActual = 0 then Inr 0
                                else decDiv totalCashInvestmentActual price)
                           (\<lambda>totalNewShares.
                              let state3 =
                                    (if cash \<noteq> [] \<and> totalCashInvestmentActual \<noteq> 0 then
                                       issueToInvestors uuid k1 (e_id event) preferredClassId
                                         (distributeSharesByLargestRemainder (roundShares totalNewShares)
                                            (map (\<lambda>iv. \<lparr>r_id = inv_personId iv,
                                                           proportion = amountOf iv
                                                                        / totalCashInvestmentActual\<rparr>)
                                               cash))
                                         cash state2
                                     else state2)
                              in topUpPool state3 (esopTargetPercent data)))))"

subsection \<open>Dispatch and replay\<close>

text \<open>\<^verbatim>\<open>applyEvent\<close>: the copy of the state is stamped with the event, then handed to the
  handler of the event's type.\<close>

definition applyEvent :: "uuids \<Rightarrow> CapTableState \<Rightarrow> Event \<Rightarrow> error + CapTableState" where
  "applyEvent uuid state event =
     (let newState = state\<lparr>asOfEventId := Some (e_id event), asOfDate := Some (e_date event)\<rparr>
      in case e_data event of
           Incorporation data \<Rightarrow> applyIncorporation uuid newState event data
         | PricedRound data \<Rightarrow> applyPricedRound uuid newState event data
         | SAFEIssuance data \<Rightarrow> applySAFEIssuance uuid newState event data
         | ESOPPoolCreation data \<Rightarrow> applyESOPPoolCreation uuid newState event data
         | ESOPPoolExtension data \<Rightarrow> applyESOPPoolExtension newState event data
         | ESOPGrant data \<Rightarrow> applyESOPGrant uuid newState event data
         | OptionExercise data \<Rightarrow> applyOptionExercise uuid newState event data
         | UnknownEvent \<Rightarrow> Inl UnknownEventType)"

definition createInitialState :: "string \<Rightarrow> CapTableState" where
  "createInitialState cid =
     \<lparr>companyId = cid, asOfEventId = None, asOfDate = None, shareClasses = [], holdings = [],
      safes = [], people = [], vestingSchedules = []\<rparr>"

record Snapshot =
  snap_eventId :: string
  snap_date :: int
  snap_label :: string
  snap_state :: CapTableState

text \<open>
  The identifiers of a replay: \<open>draws i k\<close> is what the \<open>k\<close>-th call of \<^verbatim>\<open>uuidv4()\<close>
  returns while the \<open>i\<close>-th event (in sorted order) is applied.
\<close>

fun replayFrom ::
  "(nat \<Rightarrow> uuids) \<Rightarrow> nat \<Rightarrow> CapTableState \<Rightarrow> Snapshot list \<Rightarrow> Event list
     \<Rightarrow> error + CapTableState \<times> Snapshot list" where
  "replayFrom draws i state snapshots [] = Inr (state, snapshots)"
| "replayFrom draws i state snapshots (event # rest) =
     bindE (applyEvent (draws i) state event) (\<lambda>state'.
       replayFrom draws (Suc i) state'
         (snapshots @ [\<lparr>snap_eventId = e_id event, snap_date = e_date event,
                        snap_label = e_label event, snap_state = state'\<rparr>])
         rest)"

text \<open>\<^verbatim>\<open>replayAllEvents\<close>: the events in ascending date order, same-date events in their
  order of arrival (the array sort is stable).\<close>

definition replayAllEvents ::
  "(nat \<Rightarrow> uuids) \<Rightarrow> string \<Rightarrow> Event list \<Rightarrow> error + CapTableState \<times> Snapshot list" where
  "replayAllEvents draws cid events =
     replayFrom draws 0 (createInitialState cid) [] (sort_key e_date events)"

section \<open>Concrete scenarios\<close>

subsection \<open>Scenario D: a 48,000 option grant on a 12/48 month schedule\<close>






subsection \<open>Scenario A and a three-way split\<close>

definition founders6040 :: "Recipient list" where
  "founders6040 = [\<lparr>r_id = ''f1'', proportion = 3 / 5\<rparr>, \<lparr>r_id = ''f2'', proportion = 2 / 5\<rparr>]"

definition thirds :: "Recipient list" where
  "thirds = [\<lparr>r_id = ''a'', proportion = 1 / 3\<rparr>, \<lparr>r_id = ''b'', proportion = 1 / 3\<rparr>,
             \<lparr>r_id = ''c'', proportion = 1 / 3\<rparr>]"

subsection \<open>Scenario B: a capped and discounted SAFE\<close>


subsection \<open>A company with a pool and a vesting grant\<close>

definition uuidA :: uuids where
  "uuidA k = CHR ''a'' # replicate k CHR ''+''"

definition uuidB :: uuids where
  "uuidB k = CHR ''b'' # replicate k CHR ''+''"

definition commonClass :: ShareClass where
  "commonClass =
     \<lparr>sc_id = ''common'', sc_name = ''Common'', sc_type = Common, seniorityRank = 0,
      liquidationPreferenceMultiple = 1, participation = NonParticipating,
      participationCapMultiple = None, isConvertibleToCommon = False,
      pricePerShare = Some (1 / 10000)\<rparr>"

definition founderHolding :: SecurityHolding where
  "founderHolding = newHolding ''h-f'' ''founder-1'' ''common'' 9000000 ''e-0'' False"

definition poolHolding :: SecurityHolding where
  "poolHolding = newHolding ''h-p'' ESOP_POOL_HOLDER_ID ''opt'' 1000000 ''e-0'' True"

definition founderPerson :: Person where
  "founderPerson = \<lparr>p_id = ''founder-1'', p_name = ''Ada'', p_type = Founder\<rparr>"


definition poolState :: CapTableState where
  "poolState =
     \<lparr>companyId = ''c'', asOfEventId = Some ''e-0'', asOfDate = Some 0,
      shareClasses = [commonClass, employeeOptionsClass ''opt''],
      holdings = [founderHolding, poolHolding], safes = [],
      people = [poolPerson, founderPerson], vestingSchedules = []\<rparr>"



definition extensionEvent :: "rat \<Rightarrow> Event" where
  "extensionEvent pct =
     \<lparr>e_id = ''e-2'', e_date = 1, e_label = ''Pool extension'', e_data = ESOPPoolExtension pct\<rparr>"

subsection \<open>Scenario E: one preferred investor and a founder\<close>

definition seriesA :: "ParticipationType \<Rightarrow> ShareClass" where
  "seriesA part =
     \<lparr>sc_id = ''series-a'', sc_name = ''Series A'', sc_type = Preferred, seniorityRank = 1,
      liquidationPreferenceMultiple = 1, participation = part,
      participationCapMultiple = None, isConvertibleToCommon = True, pricePerShare = Some 1\<rparr>"

definition investorPerson :: Person where
  "investorPerson = \<lparr>p_id = ''inv-1'', p_name = ''Ivy'', p_type = Investor\<rparr>"

definition investorHolding :: SecurityHolding where
  "investorHolding =
     (newHolding ''h-i'' ''inv-1'' ''series-a'' 2000000 ''e-1'' False)
       \<lparr>investmentAmount := Some 2000000\<rparr>"

definition scenarioE_state :: "ParticipationType \<Rightarrow> CapTableState" where
  "scenarioE_state part =
     \<lparr>companyId = ''c'', asOfEventId = Some ''e-1'', asOfDate = Some 0,
      shareClasses = [commonClass, seriesA part],
      holdings = [newHolding ''h-f'' ''founder-1'' ''common'' 8000000 ''e-0'' False, investorHolding],
      safes = [], people = [founderPerson, investorPerson], vestingSchedules = []\<rparr>"


subsection \<open>Replays\<close>

definition drawsA :: "nat \<Rightarrow> uuids" where
  "drawsA i k = CHR ''a'' # replicate i CHR ''.'' @ CHR ''-'' # replicate k CHR ''+''"

definition drawsB :: "nat \<Rightarrow> uuids" where
  "drawsB i k = CHR ''b'' # replicate i CHR ''.'' @ CHR ''-'' # replicate k CHR ''+''"

definition incorporationA :: Event where
  "incorporationA =
     \<lparr>e_id = ''e-0'', e_date = 0, e_label = ''Incorporation'',
      e_data = Incorporation
        \<lparr>totalIssuedShares = 10000000, inc_pricePerShare = None,
         founderInputMode = PercentageMode,
         founders = [\<lparr>f_personId = ''f1'', f_name = ''Ada'', f_percentage = Some 60, f_shares = None\<rparr>,
                     \<lparr>f_personId = ''f2'', f_name = ''Bob'', f_percentage = Some 40, f_shares = None\<rparr>],
         esopPool = None\<rparr>\<rparr>"

text \<open>What is read off a replay below: the share class ids, and the id, holder and
  quantity of every holding of the final state.\<close>

definition summary :: "error + CapTableState \<times> Snapshot list \<Rightarrow> error + (string list \<times> (string \<times> string \<times> int) list)" where
  "summary r = map_sum id (\<lambda>(s, _). (map sc_id (shareClasses s),
       map (\<lambda>h. (h_id h, holderId h, quantity h)) (holdings s))) r"

definition incorporation9M :: Event where
  "incorporation9M =
     \<lparr>e_id = ''e-0'', e_date = 0, e_label = ''Incorporation'',
      e_data = Incorporation
        \<lparr>totalIssuedShares = 9000000, inc_pricePerShare = None,
         founderInputMode = SharesMode,
         founders = [\<lparr>f_personId = ''f1'', f_name = ''Ada'', f_percentage = None, f_shares = Some 9000000\<rparr>],
         esopPool = None\<rparr>\<rparr>"

definition poolCreation10 :: Event where
  "poolCreation10 =
     \<lparr>e_id = ''e-1'', e_date = 10, e_label = ''Pool'', e_data = ESOPPoolCreation (PoolPercentage 10)\<rparr>"

definition roundData :: "rat option \<Rightarrow> PricedRoundData" where
  "roundData pct =
     \<lparr>valuation = ByPricePerShare 1, totalNewMoney = 1000000,
      investors = [\<lparr>inv_personId = ''inv-1'', inv_name = ''Ivy'', inv_amount = Some 1000000\<rparr>],
      pr_shareClassId = None, createNewShareClass = False, shareClassName = None,
      liquidationPreference = None, pr_participation = None, participationCap = None,
      esopTargetPercent = pct, safesToConvert = None\<rparr>"

definition roundWithTopUp :: "rat \<Rightarrow> Event" where
  "roundWithTopUp pct =
     \<lparr>e_id = ''e-2'', e_date = 20, e_label = ''Series A'',
      e_data = PricedRound (roundData (Some pct))\<rparr>"

definition safeIssue :: Event where
  "safeIssue =
     \<lparr>e_id = ''e-s'', e_date = 5, e_label = ''SAFE'',
      e_data = SAFEIssuance
        [\<lparr>si_id = None, si_investorId = ''angel'', si_investorName = Some ''Angel'',
          si_principalAmount = 500000, si_valuationType = Some PreMoney,
          si_valuationCap = Some 5000000, si_discountPercent = Some 20,
          si_mostFavoredNation = False\<rparr>]\<rparr>"

definition incorporation10M :: Event where
  "incorporation10M =
     \<lparr>e_id = ''e-0'', e_date = 0, e_label = ''Incorporation'',
      e_data = Incorporation
        \<lparr>totalIssuedShares = 10000000, inc_pricePerShare = None,
         founderInputMode = SharesMode,
         founders = [\<lparr>f_personId = ''f1'', f_name = ''Ada'', f_percentage = None, f_shares = Some 10000000\<rparr>],
         esopPool = None\<rparr>\<rparr>"

definition plainRound :: Event where
  "plainRound =
     \<lparr>e_id = ''e-2'', e_date = 20, e_label = ''Series A'', e_data = PricedRound (roundData None)\<rparr>"

section \<open>Arithmetic helpers\<close>

lemma floor_rat_numeral_div [simp]:
  "\<lfloor>(numeral a :: rat) / numeral b\<rfloor> = numeral a div numeral b"
  using floor_divide_of_int_eq[of "numeral a" "numeral b", where ?'a = rat] by simp

lemma bindE_Inr [simp]: "bindE (Inr x) f = f x"
  by (simp add: bindE_def)

lemma bindE_Inl [simp]: "bindE (Inl e) f = Inl e"
  by (simp add: bindE_def)

lemma decDiv_nonzero: "b \<noteq> 0 \<Longrightarrow> decDiv a b = Inr (a / b)"
  by (simp add: decDiv_def)

lemma decDiv_Inr_iff: "decDiv a b = Inr q \<longleftrightarrow> b \<noteq> 0 \<and> q = a / b"
  by (auto simp: decDiv_def)

section \<open>Vesting: monotonicity, cliff and full vesting\<close>


















text \<open>Outside these hypotheses: a schedule whose cliff is its whole period divides by zero
  in the month of the cliff, and the vested quantity is \<open>NaN\<close> there.\<close>

lemma vested_at_cliff_equal_to_total_months:
  "vestedUnderSchedule
     \<lparr>vs_id = ''vs'', cliffMonths = 12, totalMonths = 12, initialCliffPercent = 25\<rparr> 48000 12
   = NaN"
  by (simp add: vestedUnderSchedule_def cliffPercentOf_def Let_def)

section \<open>Proportional allocator: the shares add up\<close>

lemma getOr0_awardExtra:
  "getOr0 (awardExtra e m) k = (if k = es_id e then getOr0 m k + 1 else getOr0 m k)"
  by (simp add: awardExtra_def getOr0_def)

lemma getOr0_storeFloor:
  "getOr0 (storeFloor e m) k = (if k = es_id e then floorShares e else getOr0 m k)"
  by (simp add: storeFloor_def getOr0_def)

lemma sum_getOr0_bump:
  "distinct ks \<Longrightarrow>
   sum_list (map (getOr0 (awardExtra e m)) ks)
     = sum_list (map (getOr0 m) ks) + (if es_id e \<in> set ks then 1 else 0)"
  by (induction ks) (auto simp: getOr0_awardExtra)

lemma sum_getOr0_fold_bump:
  "distinct ks \<Longrightarrow> set (map es_id xs) \<subseteq> set ks \<Longrightarrow>
   sum_list (map (getOr0 (fold awardExtra xs m)) ks)
     = sum_list (map (getOr0 m) ks) + int (length xs)"
proof (induction xs arbitrary: m)
  case Nil
  then show ?case by simp
next
  case (Cons x xs)
  have "sum_list (map (getOr0 (fold awardExtra xs
            (awardExtra x m))) ks)
        = sum_list (map (getOr0 (awardExtra x m)) ks) + int (length xs)"
    using Cons.IH[of "awardExtra x m"] Cons.prems by simp
  also have "\<dots> = sum_list (map (getOr0 m) ks) + 1 + int (length xs)"
    using sum_getOr0_bump[OF Cons.prems(1), of x m] Cons.prems(2) by simp
  finally show ?case by simp
qed

lemma fold_store_other:
  "k \<notin> set (map es_id es) \<Longrightarrow>
   getOr0 (fold storeFloor es m) k = getOr0 m k"
  by (induction es arbitrary: m) (auto simp: getOr0_storeFloor)

lemma fold_store_distinct:
  "distinct (map es_id es) \<Longrightarrow>
   map (\<lambda>e. getOr0 (fold storeFloor es m) (es_id e)) es
     = map floorShares es"
proof (induction es arbitrary: m)
  case Nil
  then show ?case by simp
next
  case (Cons x xs)
  have "getOr0 (fold storeFloor xs (storeFloor x m)) (es_id x)
        = floorShares x"
    using Cons.prems fold_store_other[of "es_id x" xs "storeFloor x m"]
    by (simp add: getOr0_storeFloor)
  then show ?case using Cons by simp
qed

lemma exactShares_ids: "map es_id (exactSharesOf t rs) = map r_id rs"
  by (simp add: exactSharesOf_def Let_def comp_def)

lemma exactShares_length: "length (exactSharesOf t rs) = length rs"
  by (simp add: exactSharesOf_def)

lemma shares_as_lookup:
  "map shares (distributeSharesByLargestRemainder t rs)
   = (let es = exactSharesOf t rs;
          remaining = t - sum_list (map floorShares es);
          result = fold awardExtra
                     (take (nat remaining) (sort_key (\<lambda>e. - remainder e) es))
                     (fold storeFloor es Map.empty)
      in map (getOr0 result) (map r_id rs))"
  by (simp add: distributeSharesByLargestRemainder_def Let_def comp_def)

lemma distribute_sum:
  assumes d: "distinct (map r_id rs)"
  shows "sum_list (map shares (distributeSharesByLargestRemainder t rs))
       = sum_list (map floorShares (exactSharesOf t rs))
         + int (min (nat (t - sum_list (map floorShares (exactSharesOf t rs)))) (length rs))"
proof -
  let ?es = "exactSharesOf t rs"
  let ?rem = "t - sum_list (map floorShares ?es)"
  let ?sorted = "sort_key (\<lambda>e. - remainder e) ?es"
  let ?r0 = "fold storeFloor ?es Map.empty"
  have ids: "map es_id ?es = map r_id rs" by (rule exactShares_ids)
  have sub: "set (map es_id (take (nat ?rem) ?sorted)) \<subseteq> set (map r_id rs)"
  proof -
    have "set (take (nat ?rem) ?sorted) \<subseteq> set ?sorted" by (rule set_take_subset)
    then have "set (take (nat ?rem) ?sorted) \<subseteq> set ?es" by simp
    then have "es_id ` set (take (nat ?rem) ?sorted) \<subseteq> es_id ` set ?es" by blast
    then show ?thesis using ids by (metis set_map)
  qed
  have base: "sum_list (map (getOr0 ?r0) (map r_id rs)) = sum_list (map floorShares ?es)"
  proof -
    have "distinct (map es_id ?es)" using d ids by simp
    from fold_store_distinct[OF this, of Map.empty]
    have "map (getOr0 ?r0) (map es_id ?es) = map floorShares ?es"
      by (simp only: map_map o_def)
    then show ?thesis using ids by (simp only:)
  qed
  have "sum_list (map shares (distributeSharesByLargestRemainder t rs))
        = sum_list (map (getOr0 ?r0) (map r_id rs)) + int (length (take (nat ?rem) ?sorted))"
    unfolding shares_as_lookup Let_def
    using sum_getOr0_fold_bump[OF d sub, of ?r0] by simp
  then show ?thesis using base by (simp add: exactShares_length)
qed

lemma floor_sum_le:
  "sum_list (map (\<lambda>x. of_int \<lfloor>x\<rfloor>) xs) \<le> (sum_list xs :: rat)"
  by (induction xs) (auto intro: add_mono)

lemma floor_sum_gt:
  "xs \<noteq> [] \<Longrightarrow> (sum_list xs :: rat) < sum_list (map (\<lambda>x. of_int \<lfloor>x\<rfloor>) xs) + of_nat (length xs)"
proof (induction xs)
  case Nil
  then show ?case by simp
next
  case (Cons x xs)
  have x: "x < of_int \<lfloor>x\<rfloor> + 1" by linarith
  show ?case
  proof (cases "xs = []")
    case True
    then show ?thesis using x by simp
  next
    case False
    with Cons.IH x show ?thesis by simp
  qed
qed

lemma exact_sum:
  "sum_list (map exact (exactSharesOf t rs)) = of_int t * sum_list (map proportion rs)"
  by (induction rs) (simp_all add: exactSharesOf_def Let_def algebra_simps)

lemma floors_of_exact:
  "map (\<lambda>e. (of_int (floorShares e) :: rat)) (exactSharesOf t rs)
   = map (\<lambda>x. of_int \<lfloor>x\<rfloor>) (map exact (exactSharesOf t rs))"
  by (simp add: exactSharesOf_def Let_def comp_def)

lemma of_int_sum_list: "(of_int (sum_list xs) :: rat) = sum_list (map of_int xs)"
  by (induction xs) simp_all

lemma shortfall_bounds:
  assumes "sum_list (map proportion rs) = 1"
  shows "0 \<le> t - sum_list (map floorShares (exactSharesOf t rs))
       \<and> t - sum_list (map floorShares (exactSharesOf t rs)) \<le> int (length rs)"
proof -
  let ?es = "exactSharesOf t rs"
  let ?F = "sum_list (map floorShares ?es)"
  have ne: "rs \<noteq> []" using assms by auto
  have ex: "sum_list (map exact ?es) = of_int t" using assms by (simp add: exact_sum)
  have F: "(of_int ?F :: rat) = sum_list (map (\<lambda>x. of_int \<lfloor>x\<rfloor>) (map exact ?es))"
    by (simp add: of_int_sum_list comp_def exactSharesOf_def Let_def)
  have "(of_int ?F :: rat) \<le> of_int t"
    using floor_sum_le[of "map exact ?es"] ex F by simp
  then have lo: "?F \<le> t" by (simp only: of_int_le_iff)
  have "map exact ?es \<noteq> []" using ne by (simp add: exactSharesOf_def)
  then have "(of_int t :: rat) < of_int ?F + of_nat (length rs)"
    using floor_sum_gt[of "map exact ?es"] ex F by (simp add: exactShares_length)
  then have "(of_int t :: rat) < of_int (?F + int (length rs))" by simp
  then have hi: "t < ?F + int (length rs)" by (simp only: of_int_less_iff)
  from lo hi show ?thesis by simp
qed

lemma getOr0_fold_bump_nonneg:
  "(\<forall>k. 0 \<le> getOr0 m k) \<Longrightarrow>
   0 \<le> getOr0 (fold awardExtra xs m) k"
proof (induction xs arbitrary: m)
  case Nil
  then show ?case by simp
next
  case (Cons x xs)
  have "\<forall>k. 0 \<le> getOr0 (awardExtra x m) k"
    using Cons.prems by (simp add: getOr0_awardExtra getOr0_storeFloor)
  from Cons.IH[OF this] show ?case by simp
qed

lemma getOr0_fold_store_nonneg:
  "(\<forall>k. 0 \<le> getOr0 m k) \<Longrightarrow> (\<forall>e \<in> set es. 0 \<le> floorShares e) \<Longrightarrow>
   0 \<le> getOr0 (fold storeFloor es m) k"
proof (induction es arbitrary: m)
  case Nil
  then show ?case by simp
next
  case (Cons x xs)
  have "\<forall>k. 0 \<le> getOr0 (storeFloor x m) k"
    using Cons.prems by (simp add: getOr0_awardExtra getOr0_storeFloor)
  from Cons.IH[OF this] Cons.prems(2) show ?case by simp
qed

lemma floors_nonneg:
  assumes "0 \<le> t" "\<forall>r \<in> set rs. 0 \<le> proportion r"
  shows "\<forall>e \<in> set (exactSharesOf t rs). 0 \<le> floorShares e"
  using assms by (auto simp: exactSharesOf_def Let_def)

lemma distribute_nonneg:
  assumes "0 \<le> t" "\<forall>r \<in> set rs. 0 \<le> proportion r"
  shows "\<forall>a \<in> set (distributeSharesByLargestRemainder t rs). 0 \<le> shares a"
proof -
  have base: "\<forall>k. 0 \<le> getOr0 (fold storeFloor (exactSharesOf t rs) Map.empty) k"
    using getOr0_fold_store_nonneg[of Map.empty "exactSharesOf t rs"] floors_nonneg[OF assms]
    by (simp add: getOr0_def)
  show ?thesis
    unfolding distributeSharesByLargestRemainder_def Let_def
    using getOr0_fold_bump_nonneg[OF base] by auto
qed

text \<open>
  Claim C1, as the allocator computes it. For a non-negative total and recipients with
  distinct ids and non-negative proportions, there is one share count per recipient and
  none is negative. The counts add up to the total when the proportions add up to exactly
  1, and more generally whenever the shortfall left by the floors,
  \<open>total - \<Sum> \<lfloor>total \<times> proportion\<rfloor>\<close>, lies between 0 and the number of recipients:
  the allocator multiplies by the proportions as they are and hands out at most one
  extra share per recipient.
\<close>

theorem C1_allocation_sums_to_total:
  assumes ids: "distinct (map r_id rs)"
    and total: "0 \<le> t"
    and props: "\<forall>r \<in> set rs. 0 \<le> proportion r"
  shows "map a_id (distributeSharesByLargestRemainder t rs) = map r_id rs
       \<and> (\<forall>a \<in> set (distributeSharesByLargestRemainder t rs). 0 \<le> shares a)
       \<and> (sum_list (map proportion rs) = 1 \<longrightarrow>
            sum_list (map shares (distributeSharesByLargestRemainder t rs)) = t)
       \<and> (0 \<le> t - sum_list (map floorShares (exactSharesOf t rs))
            \<and> t - sum_list (map floorShares (exactSharesOf t rs)) \<le> int (length rs) \<longrightarrow>
            sum_list (map shares (distributeSharesByLargestRemainder t rs)) = t)"
proof -
  let ?F = "sum_list (map floorShares (exactSharesOf t rs))"
  have one: "map a_id (distributeSharesByLargestRemainder t rs) = map r_id rs"
    by (simp add: distributeSharesByLargestRemainder_def Let_def comp_def)
  have gen: "sum_list (map shares (distributeSharesByLargestRemainder t rs)) = t"
    if "0 \<le> t - ?F" "t - ?F \<le> int (length rs)"
  proof -
    have "int (min (nat (t - ?F)) (length rs)) = t - ?F" using that by simp
    then show ?thesis using distribute_sum[OF ids, of t] by simp
  qed
  have unit: "sum_list (map shares (distributeSharesByLargestRemainder t rs)) = t"
    if "sum_list (map proportion rs) = 1"
    using shortfall_bounds[OF that, of t] gen by simp
  show ?thesis using one distribute_nonneg[OF total props] gen unit by blast
qed

lemma scenarioA: "distributeSharesByLargestRemainder 10000000 founders6040
   = [\<lparr>a_id = ''f1'', shares = 6000000\<rparr>, \<lparr>a_id = ''f2'', shares = 4000000\<rparr>]"
  by (simp add: distributeSharesByLargestRemainder_def exactSharesOf_def founders6040_def Let_def getOr0_def storeFloor_def awardExtra_def)

lemma thirds10: "distributeSharesByLargestRemainder 10 thirds
   = [\<lparr>a_id = ''a'', shares = 4\<rparr>, \<lparr>a_id = ''b'', shares = 3\<rparr>, \<lparr>a_id = ''c'', shares = 3\<rparr>]"
  by (simp add: distributeSharesByLargestRemainder_def exactSharesOf_def thirds_def Let_def getOr0_def storeFloor_def awardExtra_def)

text \<open>Ten shares among three equal recipients: 4, 3 and 3.\<close>

theorem C1_allocation_witness:
  "sum_list (map shares (distributeSharesByLargestRemainder 10 thirds)) = 10
   \<and> map shares (distributeSharesByLargestRemainder 10 thirds) = [4, 3, 3]"
proof -
  have ids: "distinct (map r_id thirds)" by (simp add: thirds_def)
  have total: "(0::int) \<le> 10" by simp
  have props: "\<forall>r \<in> set thirds. 0 \<le> proportion r" by (simp add: thirds_def)
  have unit: "sum_list (map proportion thirds) = 1" by (simp add: thirds_def)
  from C1_allocation_sums_to_total[OF ids total props] unit
  have "sum_list (map shares (distributeSharesByLargestRemainder 10 thirds)) = 10" by blast
  then show ?thesis using thirds10 by simp
qed

text \<open>Proportions that do not add up to 1 are not rescaled: a single recipient with
  proportion 1/5 of a total of 10 receives 2 shares and one extra share, 3 in all.\<close>

theorem C1_allocation_counterexample:
  "map shares (distributeSharesByLargestRemainder 10 [\<lparr>r_id = ''a'', proportion = 1 / 5\<rparr>]) = [3]
   \<and> sum_list (map shares
         (distributeSharesByLargestRemainder 10 [\<lparr>r_id = ''a'', proportion = 1 / 5\<rparr>])) \<noteq> 10"
  by (simp add: distributeSharesByLargestRemainder_def exactSharesOf_def Let_def getOr0_def
      storeFloor_def awardExtra_def)

section \<open>SAFE conversion: the effective price\<close>








section \<open>Option exercise and pool sizing\<close>

lemma length_updateFirst [simp]: "length (updateFirst p f xs) = length xs"
  by (induction xs) auto





lemma updateFirst_none: "find p xs = None \<Longrightarrow> updateFirst p f xs = xs"
  by (induction xs) (auto split: if_splits)




text \<open>Pool creation by percentage does fail at 100% and above.\<close>

lemma pool_creation_refuses_100_percent:
  "100 \<le> pct \<Longrightarrow>
   applyESOPPoolCreation uuid state event (PoolPercentage pct) = Inl TargetPercentTooHigh"
  by (simp add: applyESOPPoolCreation_def calculateESOPPoolFromPercent_def Let_def
      split: option.splits prod.splits)

section \<open>Exit waterfall: what a preferred holder receives\<close>


lemma scenarioE_participating:
  "calculateExitWaterfall uuidA (scenarioE_state Participating) 20000000
   = Inr \<lparr>exitValuation = 20000000,
          distributions =
            [\<lparr>d_holderId = ''founder-1'', d_holderName = ''Ada'', d_holderType = Founder,
              proceeds = 18000000, percentOfExit = 90, d_investmentAmount = 0, multiple = None,
              d_method = ''common''\<rparr>,
             \<lparr>d_holderId = ''inv-1'', d_holderName = ''Ivy'', d_holderType = Investor,
              proceeds = 2000000, percentOfExit = 10, d_investmentAmount = 2000000,
              multiple = Some 1, d_method = ''participating''\<rparr>],
          totalDistributed = 20000000\<rparr>"
  by code_simp







lemma pay_holderId_holdingPayout [simp]:
  "pay_holderId (holdingPayout ev tce pc h) = holderId h"
  by (simp add: holdingPayout_def)









text \<open>The payment for a holding never reads \<open>participationCapMultiple\<close>, and a
  participating class is paid its preference and nothing else.\<close>

lemma participation_cap_ignored:
  "holdingPayout ev tce (pc\<lparr>participationCapMultiple := cap\<rparr>) h = holdingPayout ev tce pc h"
  by (simp add: holdingPayout_def holderPreference_def preferenceMultipleOf_def)

lemma participating_pays_preference_only:
  "participation pc = Participating \<Longrightarrow>
   pay_amount (holdingPayout ev tce pc h) = holderPreference pc h"
  by (simp add: holdingPayout_def)

text \<open>
  Claim C2 on scenario E with the preferred class made participating. The investor's row
  is the liquidation preference of $2,000,000 alone, labelled \<open>participating\<close>; all of
  the remaining $18,000,000 goes to the common holder, and no share of it to the
  investor.
\<close>

theorem C2_participating_receives_preference_only:
  "map_sum id (\<lambda>w. map (\<lambda>r. (d_holderId r, proceeds r, d_method r)) (distributions w))
     (calculateExitWaterfall uuidA (scenarioE_state Participating) 20000000)
   = Inr [(''founder-1'', 18000000, ''common''), (''inv-1'', 2000000, ''participating'')]
   \<and> holderPreference (seriesA Participating) investorHolding = 2000000"
  by (simp add: scenarioE_participating holderPreference_def preferenceMultipleOf_def seriesA_def
      investorHolding_def newHolding_def)

section \<open>Exit waterfall: the total distributed\<close>

lemma roundShares_of_int [simp]: "roundShares (of_int k) = k"
proof (cases "0 \<le> k")
  case True
  have "\<lfloor>(of_int k :: rat) + 1 / 2\<rfloor> = k" by (simp add: floor_unique)
  with True show ?thesis by (simp add: roundShares_def)
next
  case False
  have "\<lfloor>- (of_int k :: rat) + 1 / 2\<rfloor> = - k"
    using floor_unique[of "- k" "- (of_int k :: rat) + 1 / 2"] by simp
  with False show ?thesis by (simp add: roundShares_def)
qed





lemma sum_list_insort_key:
  fixes f :: "'a \<Rightarrow> rat"
  shows "sum_list (map f (insort_key k x xs)) = f x + sum_list (map f xs)"
  by (induction xs) (simp_all add: algebra_simps)

lemma sum_list_sort_key [simp]:
  fixes f :: "'a \<Rightarrow> rat"
  shows "sum_list (map f (sort_key k xs)) = sum_list (map f xs)"
  by (induction xs) (simp_all add: sum_list_insort_key)


















section \<open>Replay: identifiers, and the pool target that is not checked\<close>

text \<open>Scenario A: 10,000,000 shares split 60/40.\<close>

lemma replayA:
  "summary (replayAllEvents drawsA ''c'' [incorporationA])
   = Inr ([''a-''], [(''a-+'', ''f1'', 6000000), (''a-++'', ''f2'', 4000000)])"
  by code_simp

lemma replayB:
  "summary (replayAllEvents drawsB ''c'' [incorporationA])
   = Inr ([''b-''], [(''b-+'', ''f1'', 6000000), (''b-++'', ''f2'', 4000000)])"
  by code_simp

text \<open>Scenario C: a pool of 10% on 9,000,000 existing shares is 1,000,000 options (the
  events are given out of date order).\<close>

lemma scenarioC:
  "summary (replayAllEvents drawsA ''c'' [poolCreation10, incorporation9M])
   = Inr ([''a-'', ''a.-''], [(''a-+'', ''f1'', 9000000), (''a.-+'', ''__esop_pool__'', 1000000)])"
  by code_simp

lemma round150:
  "summary (replayAllEvents drawsA ''c'' [incorporation9M, poolCreation10, roundWithTopUp 150])
   = Inr ([''a-'', ''a.-'', ''a..-''],
          [(''a-+'', ''f1'', 9000000), (''a.-+'', ''__esop_pool__'', 1000000),
           (''a..-+'', ''inv-1'', 1000000)])"
  by code_simp

text \<open>A top-up to 20% after the round: ten million other shares need a pool of 2,500,000.\<close>

lemma round20:
  "summary (replayAllEvents drawsA ''c'' [incorporation9M, poolCreation10, roundWithTopUp 20])
   = Inr ([''a-'', ''a.-'', ''a..-''],
          [(''a-+'', ''f1'', 9000000), (''a.-+'', ''__esop_pool__'', 2500000),
           (''a..-+'', ''inv-1'', 1000000)])"
  by code_simp

text \<open>Scenario B inside a replay: the SAFE converts into 1,000,000 shares of the round.\<close>

lemma roundWithSafe:
  "summary (replayAllEvents drawsA ''c'' [incorporation10M, safeIssue, plainRound])
   = Inr ([''a-'', ''a..-''],
          [(''a-+'', ''f1'', 10000000), (''a..-+'', ''angel'', 1000000),
           (''a..-++'', ''inv-1'', 1000000)])"
  by code_simp

text \<open>
  Claim C4 on the replay of a single incorporation event. The identifiers of the common
  class and of the founders' holdings are whatever \<^verbatim>\<open>uuidv4()\<close> returns during the
  replay: two replays of the same list that draw different identifiers end in different
  states, although holders and quantities agree.
\<close>

theorem C4_replay_identifiers_differ:
  "summary (replayAllEvents drawsA ''c'' [incorporationA])
     = Inr ([''a-''], [(''a-+'', ''f1'', 6000000), (''a-++'', ''f2'', 4000000)])
   \<and> summary (replayAllEvents drawsB ''c'' [incorporationA])
     = Inr ([''b-''], [(''b-+'', ''f1'', 6000000), (''b-++'', ''f2'', 4000000)])
   \<and> replayAllEvents drawsA ''c'' [incorporationA] \<noteq> replayAllEvents drawsB ''c'' [incorporationA]"
proof -
  have "replayAllEvents drawsA ''c'' [incorporationA] \<noteq> replayAllEvents drawsB ''c'' [incorporationA]"
  proof
    assume "replayAllEvents drawsA ''c'' [incorporationA] = replayAllEvents drawsB ''c'' [incorporationA]"
    then have "summary (replayAllEvents drawsA ''c'' [incorporationA])
             = summary (replayAllEvents drawsB ''c'' [incorporationA])" by simp
    then show False by (simp add: replayA replayB)
  qed
  then show ?thesis using replayA replayB by simp
qed

lemma round150_direct:
  "map_sum id (\<lambda>s. map (\<lambda>h. (holderId h, quantity h)) (holdings s))
     (applyPricedRound uuidA poolState (roundWithTopUp 150) (roundData (Some 150)))
   = Inr [(''founder-1'', 9000000), (''__esop_pool__'', 1000000), (''inv-1'', 1000000)]"
  by code_simp

text \<open>
  Claim C7 at a target of 150%. The sizing of a new pool refuses the target, but the
  sizing of an extension does not test it: on 9,000,000 founder shares and a pool of
  1,000,000 it computes a negative target and returns an extension of 0. The pool
  extension event is applied without any failure and leaves the state as it was, and a
  priced round with the same top-up target is applied without any failure and leaves the
  pool at 1,000,000.
\<close>

theorem C7_pool_extension_accepts_150_percent:
  "calculateESOPPoolFromPercent 9000000 (150 / 100) = Inl TargetPercentTooHigh
   \<and> calculateESOPExtension 10000000 1000000 (150 / 100) = Inr 0
   \<and> applyESOPPoolExtension poolState (extensionEvent 150) 150 = Inr poolState
   \<and> map_sum id (\<lambda>s. map (\<lambda>h. (holderId h, quantity h)) (holdings s))
        (applyPricedRound uuidA poolState (roundWithTopUp 150) (roundData (Some 150)))
       = Inr [(''founder-1'', 9000000), (''__esop_pool__'', 1000000), (''inv-1'', 1000000)]"
proof -
  have "calculateESOPPoolFromPercent 9000000 (150 / 100) = Inl TargetPercentTooHigh"
    by (simp add: calculateESOPPoolFromPercent_def)
  moreover have "calculateESOPExtension 10000000 1000000 (150 / 100) = Inr 0"
    by (simp add: calculateESOPExtension_def decDiv_def roundShares_def Let_def)
  moreover have "applyESOPPoolExtension poolState (extensionEvent 150) 150 = Inr poolState"
    by (simp add: calculateESOPExtension_def applyESOPPoolExtension_def poolState_def
        fullyDilutedShares_def getUnallocatedESOPPool_def founderHolding_def poolHolding_def
        newHolding_def ESOP_POOL_HOLDER_ID_def decDiv_def roundShares_def Let_def)
  ultimately show ?thesis using round150_direct by simp
qed

end
